theory Spec2Isabelle
  imports Complex_Main "HOL-Library.AList"
begin

section \<open>Values, dictionaries, exceptions and the logging output\<close>

text \<open>
  The pipeline passes Python dictionaries with string keys around. A dictionary is an
  association list in insertion order; \<open>AList.update\<close> is Python's item assignment
  (an existing key keeps its position and gets the new value, a new key goes to the end).
  Floats are idealised as rationals; no property below depends on their arithmetic.
\<close>

datatype pyval =
    PNone
  | PBool bool
  | PInt int
  | PFloat rat
  | PStr string
  | PList "pyval list"
  | PDict "(string \<times> pyval) list"

type_synonym dict = "(string \<times> pyval) list"

text \<open>Python truthiness of a value (\<open>if v:\<close>).\<close>

fun truthy :: "pyval \<Rightarrow> bool" where
  "truthy PNone = False"
| "truthy (PBool b) = b"
| "truthy (PInt i) = (i \<noteq> 0)"
| "truthy (PFloat r) = (r \<noteq> 0)"
| "truthy (PStr s) = (s \<noteq> [])"
| "truthy (PList xs) = (xs \<noteq> [])"
| "truthy (PDict d) = (d \<noteq> [])"

text \<open>\<open>d.get(k)\<close>, \<open>d.get(k, default)\<close>, \<open>k in d\<close> and \<open>d.update(r)\<close>.\<close>

definition dict_get :: "dict \<Rightarrow> string \<Rightarrow> pyval" where
  "dict_get d k = (case map_of d k of None \<Rightarrow> PNone | Some v \<Rightarrow> v)"

definition dict_get_default :: "dict \<Rightarrow> string \<Rightarrow> pyval \<Rightarrow> pyval" where
  "dict_get_default d k dflt = (case map_of d k of None \<Rightarrow> dflt | Some v \<Rightarrow> v)"

definition dict_contains :: "string \<Rightarrow> dict \<Rightarrow> bool" where
  "dict_contains k d = (map_of d k \<noteq> None)"

definition dict_update :: "dict \<Rightarrow> dict \<Rightarrow> dict" where
  "dict_update d r = fold (\<lambda>(k, v). AList.update k v) r d"

text \<open>
  Exceptions. Everything an external library raises is \<open>External\<close> with its message;
  the others are the interpreter's own. All of them derive from \<open>Exception\<close>, so every
  \<open>except Exception\<close> and every bare \<open>except\<close> of the source catches them.
\<close>

datatype exn =
    TypeError
  | AttributeError
  | IndexError
  | NotImplementedError
  | KeyError
  | ValueError
  | JSONDecodeError
  | External string

text \<open>
  The logging calls of the source, one constructor per message format, carrying the values
  the format string interpolates.
\<close>

datatype level = DEBUG | INFO | WARNING | ERROR

datatype message =
    AttemptFailed int string exn
  | AllAttemptsFailed int string
  | StartingPipeline
  | TotalCompanies nat
  | Processing pyval nat nat
  | FailedToProcess pyval exn
  | EnricherFailed string pyval exn
  | SavingRecords nat
  | FailedToSaveBuffer exn
  | PipelineCompleted nat nat
  | FetchedCompanies nat
  | UpdatedCompany pyval nat
  | FailedToUpdate pyval exn
  | LogsTableMissing
  | EnricherInfo string pyval
  | EnricherError string pyval exn
  | NotInEdgar string
  | StoreFilingsFailed string exn
  | ProcessFilingFailed exn
  | ConnectedToSupabase
  | SECFetching string pyval
  | LLMFetching pyval pyval
  | LLMExtracted pyval
  | LLMNoData pyval
  | LLMNotDict pyval
  | LLMParseFailed exn
  | LLMRawResponse string

text \<open>
  The world a call runs in: the log written so far, the sleeps taken so far, and the state
  of everything outside the process (providers, datastore, clock), which the model leaves
  abstract.
\<close>

record 'x world =
  logged :: "(level \<times> message) list"
  slept :: "rat list"
  ext :: 'x

definition log :: "level \<Rightarrow> message \<Rightarrow> 'x world \<Rightarrow> 'x world" where
  "log l m w = w\<lparr>logged := logged w @ [(l, m)]\<rparr>"

text \<open>\<open>time.sleep(s)\<close> raises \<open>ValueError\<close> for a negative length.\<close>

definition sleep :: "rat \<Rightarrow> 'x world \<Rightarrow> exn + 'x world" where
  "sleep s w = (if s < 0 then Inl ValueError else Inr (w\<lparr>slept := slept w @ [s]\<rparr>))"

type_synonym ('x, 'a) action = "'x world \<Rightarrow> (exn + 'a) \<times> 'x world"

section \<open>The retry wrapper (enrichers/base.py)\<close>

text \<open>
  \<open>retry_on_failure(max_retries, delay)(func)\<close>: the loop \<open>for attempt in
  range(max_retries + 1)\<close> with the variable \<open>last_exception\<close>. A successful call returns
  at once. The warning and the sleep are in the \<open>except\<close> handler, so an exception of
  \<open>time.sleep\<close> leaves the wrapper from there. After the loop \<open>raise last_exception\<close>
  raises the stored exception, or a \<open>TypeError\<close> when the loop never ran
  (\<open>max_retries < 0\<close>) and the variable is still \<open>None\<close>.
\<close>

function retry_loop ::
  "int \<Rightarrow> rat \<Rightarrow> string \<Rightarrow> ('x, 'a) action \<Rightarrow> int \<Rightarrow> exn option \<Rightarrow> ('x, 'a) action"
where
  "retry_loop max_retries delay fname func attempt last_exception w =
     (if attempt < max_retries + 1 then
        (case func w of
           (Inr v, w1) \<Rightarrow> (Inr v, w1)
         | (Inl e, w1) \<Rightarrow>
             (if attempt < max_retries then
                (case sleep (delay * of_int (attempt + 1))
                        (log WARNING (AttemptFailed (attempt + 1) fname e) w1) of
                   Inl e' \<Rightarrow> (Inl e', log WARNING (AttemptFailed (attempt + 1) fname e) w1)
                 | Inr w2 \<Rightarrow> retry_loop max_retries delay fname func (attempt + 1) (Some e) w2)
              else
                retry_loop max_retries delay fname func (attempt + 1) (Some e)
                  (log ERROR (AllAttemptsFailed (max_retries + 1) fname) w1)))
      else
        (case last_exception of
           None \<Rightarrow> (Inl TypeError, w)
         | Some e \<Rightarrow> (Inl e, w)))"
  by pat_completeness auto
termination
  by (relation "measure (\<lambda>(max_retries, delay, fname, func, attempt, last_exception, w).
        nat (max_retries + 1 - attempt))") auto

declare retry_loop.simps [simp del]

definition retry_on_failure ::
  "int \<Rightarrow> rat \<Rightarrow> string \<Rightarrow> ('x, 'a) action \<Rightarrow> ('x, 'a) action"
where
  "retry_on_failure max_retries delay fname func = retry_loop max_retries delay fname func 0 None"

text \<open>
  What the wrapper does between a failed attempt and the next one: one warning with the
  number of the attempt (from 1) and one sleep of \<open>delay\<close> times that number.
  \<open>attempt_world delay fname func a i w\<close> is the world in which the operation is called
  for the \<open>i\<close>-th time after the call in \<open>w\<close>, all calls before having failed, \<open>a\<close>
  being the number of attempts made before \<open>w\<close>.
\<close>

definition after_failed_attempt :: "rat \<Rightarrow> string \<Rightarrow> nat \<Rightarrow> exn \<Rightarrow> 'x world \<Rightarrow> 'x world" where
  "after_failed_attempt delay fname a e w =
     (log WARNING (AttemptFailed (int a + 1) fname e) w)
       \<lparr>slept := slept w @ [delay * of_int (int a + 1)]\<rparr>"

fun attempt_world :: "rat \<Rightarrow> string \<Rightarrow> ('x, 'a) action \<Rightarrow> nat \<Rightarrow> nat \<Rightarrow> 'x world \<Rightarrow> 'x world" where
  "attempt_world delay fname func a 0 w = w"
| "attempt_world delay fname func a (Suc i) w =
     attempt_world delay fname func (Suc a) i
       (after_failed_attempt delay fname a (projl (fst (func w))) (snd (func w)))"

definition attempt_result :: "rat \<Rightarrow> string \<Rightarrow> ('x, 'a) action \<Rightarrow> nat \<Rightarrow> 'x world \<Rightarrow> (exn + 'a) \<times> 'x world" where
  "attempt_result delay fname func i w = func (attempt_world delay fname func 0 i w)"

text \<open>
  The records of the wrapper in a log, and the operations that leave them alone (an
  operation of the repository logs through the logger of its own module).
\<close>

fun is_retry_event :: "level \<times> message \<Rightarrow> bool" where
  "is_retry_event (l, AttemptFailed i fname e) = True"
| "is_retry_event (l, AllAttemptsFailed i fname) = True"
| "is_retry_event (l, m) = False"

definition retry_events :: "'x world \<Rightarrow> (level \<times> message) list" where
  "retry_events w = filter is_retry_event (logged w)"

definition keeps_retry_events :: "('x, 'a) action \<Rightarrow> bool" where
  "keeps_retry_events func = (\<forall>w. retry_events (snd (func w)) = retry_events w)"

definition failed_attempts :: "rat \<Rightarrow> string \<Rightarrow> ('x, 'a) action \<Rightarrow> nat \<Rightarrow> 'x world \<Rightarrow> (level \<times> message) list" where
  "failed_attempts delay fname func k w =
     map (\<lambda>i. (WARNING, AttemptFailed (int i + 1) fname (projl (fst (attempt_result delay fname func i w)))))
       [0..<k]"

definition count_level :: "level \<Rightarrow> (level \<times> message) list \<Rightarrow> nat" where
  "count_level l evs = length (filter (\<lambda>(l', m). l' = l) evs)"

definition dict_item :: "dict \<Rightarrow> string \<Rightarrow> exn + pyval" where
  "dict_item d k = (case map_of d k of None \<Rightarrow> Inl KeyError | Some v \<Rightarrow> Inr v)"

text \<open>
  \<open>str(e)\<close>: the message of an exception. For an external failure it is the message the
  library gave; for the interpreter's own exceptions the class name stands for the text.
\<close>

fun exn_str :: "exn \<Rightarrow> string" where
  "exn_str (External m) = m"
| "exn_str TypeError = ''TypeError''"
| "exn_str AttributeError = ''AttributeError''"
| "exn_str IndexError = ''IndexError''"
| "exn_str KeyError = ''KeyError''"
| "exn_str ValueError = ''ValueError''"
| "exn_str NotImplementedError = ''NotImplementedError''"
| "exn_str JSONDecodeError = ''JSONDecodeError''"

section \<open>The database gateway (database.py)\<close>

text \<open>
  The Supabase client is outside the repository. Its three uses are parameters, each a
  function of the external state: the \<open>select('*')\<close> on the company table with its
  optional \<open>limit\<close> clause, the \<open>update(...).eq('Ticker', ticker)\<close>, and the \<open>insert\<close> into
  the log table. \<open>now_iso\<close> is \<open>datetime.now().isoformat()\<close>.
\<close>

record 'x services =
  now_iso :: "'x \<Rightarrow> string \<times> 'x"
  select_companies :: "int option \<Rightarrow> 'x \<Rightarrow> (exn + dict list) \<times> 'x"
  update_row :: "pyval \<Rightarrow> dict \<Rightarrow> 'x \<Rightarrow> (exn + unit) \<times> 'x"
  insert_log :: "dict \<Rightarrow> 'x \<Rightarrow> (exn + unit) \<times> 'x"

text \<open>
  \<open>fetch_companies(limit)\<close>: the \<open>limit\<close> clause is added under \<open>if limit:\<close>, the
  truthiness of an \<open>Optional[int]\<close>: \<open>None\<close> and \<open>0\<close> add no clause.
\<close>

definition limit_clause :: "int option \<Rightarrow> int option" where
  "limit_clause limit = (case limit of None \<Rightarrow> None | Some n \<Rightarrow> if n \<noteq> 0 then Some n else None)"

definition fetch_companies :: "'x services \<Rightarrow> int option \<Rightarrow> ('x, dict list) action" where
  "fetch_companies db limit w =
     (case select_companies db (limit_clause limit) (ext w) of
        (Inl e, x) \<Rightarrow> (Inl e, w\<lparr>ext := x\<rparr>)
      | (Inr data, x) \<Rightarrow> (Inr data, log INFO (FetchedCompanies (length data)) (w\<lparr>ext := x\<rparr>)))"

text \<open>\<open>update_company\<close> logs the failure and raises it again.\<close>

definition update_company :: "'x services \<Rightarrow> pyval \<Rightarrow> dict \<Rightarrow> ('x, unit) action" where
  "update_company db ticker updates w =
     (case update_row db ticker updates (ext w) of
        (Inr u, x) \<Rightarrow> (Inr (), log DEBUG (UpdatedCompany ticker (length updates)) (w\<lparr>ext := x\<rparr>))
      | (Inl e, x) \<Rightarrow> (Inl e, log ERROR (FailedToUpdate ticker e) (w\<lparr>ext := x\<rparr>)))"

text \<open>
  \<open>batch_update_companies\<close>: the \<open>for\<close> loop has no \<open>try\<close>, so an exception of
  \<open>update_company\<close> leaves the loop and the function.
\<close>

fun batch_update_companies :: "'x services \<Rightarrow> dict list \<Rightarrow> ('x, unit) action" where
  "batch_update_companies db [] w = (Inr (), w)"
| "batch_update_companies db (update # updates) w =
     (if dict_contains ''Ticker'' update then
        (case dict_item update ''Ticker'' of
           Inl e \<Rightarrow> (Inl e, w)
         | Inr ticker \<Rightarrow>
             (case update_company db ticker update w of
                (Inl e, w1) \<Rightarrow> (Inl e, w1)
              | (Inr u, w1) \<Rightarrow> batch_update_companies db updates w1))
      else batch_update_companies db updates w)"

text \<open>\<open>create_enrichment_log\<close>: the bare \<open>except\<close> turns any failure into a warning.\<close>

definition create_enrichment_log :: "'x services \<Rightarrow> dict \<Rightarrow> 'x world \<Rightarrow> 'x world" where
  "create_enrichment_log db log_entry w =
     (case insert_log db log_entry (ext w) of
        (Inr u, x) \<Rightarrow> w\<lparr>ext := x\<rparr>
      | (Inl e, x) \<Rightarrow> log WARNING LogsTableMissing (w\<lparr>ext := x\<rparr>))"

section \<open>The pipeline orchestrator (main.py)\<close>

text \<open>
  The configuration dataclass; the orchestrator reads \<open>save_frequency\<close> only.
\<close>

record config =
  batch_size :: int
  save_frequency :: int
  max_retries :: int
  retry_delay :: rat

definition default_config :: config where
  "default_config = \<lparr>batch_size = 10, save_frequency = 5, max_retries = 2, retry_delay = 1\<rparr>"

text \<open>
  An enricher instance: its \<open>name\<close> and its (retry-wrapped) \<open>enrich\<close> method. An enricher
  acts on the world only: it has no access to the pipeline object below.
\<close>

record 'x enricher =
  name :: string
  enrich :: "dict \<Rightarrow> ('x, dict) action"

text \<open>
  The \<open>EnrichmentPipeline\<close> object: its buffer and counter, and \<open>journal\<close>, the records
  written through the logger of main.py (every other module logs into the world's
  \<open>logged\<close>).
\<close>

record pipeline =
  results_buffer :: "dict list"
  processed_count :: nat
  journal :: "(level \<times> message) list"

definition init_pipeline :: pipeline where
  "init_pipeline = \<lparr>results_buffer = [], processed_count = 0, journal = []\<rparr>"

definition jlog :: "level \<Rightarrow> message \<Rightarrow> pipeline \<Rightarrow> pipeline" where
  "jlog l m p = p\<lparr>journal := journal p @ [(l, m)]\<rparr>"

text \<open>\<open>_enrich_company\<close>: every enricher in order, each under its own \<open>try\<close>.\<close>

fun enrich_loop ::
  "'x enricher list \<Rightarrow> dict \<Rightarrow> dict \<Rightarrow> pipeline \<times> 'x world \<Rightarrow> dict \<times> pipeline \<times> 'x world"
where
  "enrich_loop [] company enriched_data (p, w) = (enriched_data, p, w)"
| "enrich_loop (enricher # rest) company enriched_data (p, w) =
     (case enrich enricher company w of
        (Inr result, w1) \<Rightarrow> enrich_loop rest company (dict_update enriched_data result) (p, w1)
      | (Inl e, w1) \<Rightarrow>
          enrich_loop rest company enriched_data
            (jlog WARNING (EnricherFailed (name enricher) (dict_get company ''Ticker'') e) p, w1))"

definition enrich_company ::
  "'x enricher list \<Rightarrow> dict \<Rightarrow> pipeline \<times> 'x world \<Rightarrow> dict \<times> pipeline \<times> 'x world"
where
  "enrich_company enrichers company s = enrich_loop enrichers company [] s"

text \<open>
  \<open>_save_buffer\<close>: the buffer is cleared by the statement after the batch update, inside
  the \<open>try\<close>; when the batch update raises, control goes to the handler and the buffer is
  as it was.
\<close>

definition save_buffer :: "'x services \<Rightarrow> pipeline \<times> 'x world \<Rightarrow> pipeline \<times> 'x world" where
  "save_buffer db s =
     (case s of (p, w) \<Rightarrow>
        if results_buffer p = [] then (p, w)
        else
          (let p1 = jlog INFO (SavingRecords (length (results_buffer p))) p
           in case batch_update_companies db (results_buffer p1) w of
                (Inr u, w1) \<Rightarrow> (p1\<lparr>results_buffer := []\<rparr>, w1)
              | (Inl e, w1) \<Rightarrow> (jlog ERROR (FailedToSaveBuffer e) p1, w1)))"

definition log_enrichment_error ::
  "'x services \<Rightarrow> pyval \<Rightarrow> string \<Rightarrow> 'x world \<Rightarrow> 'x world"
where
  "log_enrichment_error db ticker error w =
     (case now_iso db (ext w) of
        (ts, x) \<Rightarrow>
          create_enrichment_log db
            [(''ticker'', ticker), (''error'', PStr error), (''timestamp'', PStr ts),
             (''enricher'', PStr ''pipeline'')]
            (w\<lparr>ext := x\<rparr>))"

text \<open>
  The body of the \<open>for\<close> loop of \<open>run\<close>, in its three parts: enrich and buffer the result
  (lines 81 to 86), save periodically (lines 89 and 90), count (line 92).
\<close>

definition buffer_result ::
  "'x services \<Rightarrow> 'x enricher list \<Rightarrow> dict \<Rightarrow> pyval \<Rightarrow> pipeline \<times> 'x world \<Rightarrow> pipeline \<times> 'x world"
where
  "buffer_result db enrichers company ticker s =
     (case enrich_company enrichers company s of
        (enriched_data, p, w) \<Rightarrow>
          if enriched_data \<noteq> [] then
            (case now_iso db (ext w) of
               (ts, x) \<Rightarrow>
                 (p\<lparr>results_buffer := results_buffer p @
                      [AList.update ''last_enriched'' (PStr ts)
                         (AList.update ''Ticker'' ticker enriched_data)]\<rparr>,
                  w\<lparr>ext := x\<rparr>))
          else (p, w))"

definition save_periodically ::
  "'x services \<Rightarrow> config \<Rightarrow> pipeline \<times> 'x world \<Rightarrow> pipeline \<times> 'x world"
where
  "save_periodically db cfg s =
     (if int (length (results_buffer (fst s))) \<ge> save_frequency cfg then save_buffer db s else s)"

definition try_body ::
  "'x services \<Rightarrow> 'x enricher list \<Rightarrow> config \<Rightarrow> dict \<Rightarrow> pyval \<Rightarrow> pipeline \<times> 'x world \<Rightarrow>
     (exn + unit) \<times> pipeline \<times> 'x world"
where
  "try_body db enrichers cfg company ticker s =
     (case save_periodically db cfg (buffer_result db enrichers company ticker s) of
        (p, w) \<Rightarrow> (Inr (), p\<lparr>processed_count := processed_count p + 1\<rparr>, w))"

definition process_company ::
  "'x services \<Rightarrow> 'x enricher list \<Rightarrow> config \<Rightarrow> nat \<Rightarrow> nat \<Rightarrow> dict \<Rightarrow> pipeline \<times> 'x world \<Rightarrow>
     pipeline \<times> 'x world"
where
  "process_company db enrichers cfg total_companies idx company s =
     (case s of (p, w) \<Rightarrow>
        let ticker = dict_get_default company ''Ticker'' (PStr ''Unknown'');
            p0 = jlog INFO (Processing ticker (idx + 1) total_companies) p
        in case try_body db enrichers cfg company ticker (p0, w) of
             (Inr u, p1, w1) \<Rightarrow> (p1, w1)
           | (Inl e, p1, w1) \<Rightarrow>
               (jlog ERROR (FailedToProcess ticker e) p1,
                log_enrichment_error db ticker (exn_str e) w1))"

fun run_loop ::
  "'x services \<Rightarrow> 'x enricher list \<Rightarrow> config \<Rightarrow> nat \<Rightarrow> nat \<Rightarrow> dict list \<Rightarrow>
     pipeline \<times> 'x world \<Rightarrow> pipeline \<times> 'x world"
where
  "run_loop db enrichers cfg total_companies idx [] s = s"
| "run_loop db enrichers cfg total_companies idx (company # rest) s =
     run_loop db enrichers cfg total_companies (idx + 1) rest
       (process_company db enrichers cfg total_companies idx company s)"

text \<open>
  \<open>run(limit)\<close>. A failure of the fetch is not caught here and leaves \<open>run\<close>. The two
  readings of the clock for the duration are calls of \<open>now_iso\<close> whose value only enters the
  text of the last message.
\<close>

definition tick :: "'x services \<Rightarrow> 'x world \<Rightarrow> 'x world" where
  "tick db w = w\<lparr>ext := snd (now_iso db (ext w))\<rparr>"

definition run ::
  "'x services \<Rightarrow> 'x enricher list \<Rightarrow> config \<Rightarrow> int option \<Rightarrow> pipeline \<times> 'x world \<Rightarrow>
     (exn + unit) \<times> pipeline \<times> 'x world"
where
  "run db enrichers cfg limit s =
     (case s of (p, w) \<Rightarrow>
        (case fetch_companies db limit (tick db w) of
           (Inl e, w1) \<Rightarrow> (Inl e, jlog INFO StartingPipeline p, w1)
         | (Inr companies, w1) \<Rightarrow>
             (let total_companies = length companies;
                  p1 = jlog INFO (TotalCompanies total_companies) (jlog INFO StartingPipeline p)
              in case run_loop db enrichers cfg total_companies 0 companies (p1, w1) of
                   (p2, w2) \<Rightarrow>
                     (case (if results_buffer p2 \<noteq> [] then save_buffer db (p2, w2) else (p2, w2)) of
                        (p3, w3) \<Rightarrow>
                          (Inr (),
                           jlog INFO (PipelineCompleted (processed_count p3) total_companies) p3,
                           tick db w3)))))"

section \<open>The enrichers (enrichers/*.py)\<close>

text \<open>
  The providers are outside the repository; each use of one is a parameter, a function of
  the external state: the Yahoo quote (\<open>yf.Ticker(ticker).info\<close>) and price history (none
  when empty, else the means of volume and close), the EDGAR company lookup and its
  filings (an entry \<open>Inl e\<close> is a filing whose attributes cannot be read), the client and
  the upsert of the filings table, the Gemini completion (the \<open>text\<close> of the response),
  \<open>json.loads\<close> and the clock.
\<close>

record edgar_company =
  cik :: pyval
  edgar_name :: pyval

record filing =
  form :: string
  filing_date :: "string option"
  accession_number :: string
  url :: string
  document_url :: "string option"
  viewer_url :: "pyval option"
  file_number :: "pyval option"
  filing_size :: "pyval option"
  attachments :: "(string \<times> string) list option"

record 'x providers =
  yf_info :: "pyval \<Rightarrow> 'x \<Rightarrow> (exn + dict) \<times> 'x"
  yf_history :: "pyval \<Rightarrow> 'x \<Rightarrow> (exn + (rat \<times> rat) option) \<times> 'x"
  edgar_lookup :: "string \<Rightarrow> 'x \<Rightarrow> (exn + edgar_company option) \<times> 'x"
  edgar_filings :: "edgar_company \<Rightarrow> string list \<Rightarrow> string \<Rightarrow> 'x \<Rightarrow> (exn + (exn + filing) list) \<times> 'x"
  create_client :: "'x \<Rightarrow> (exn + unit) \<times> 'x"
  upsert_filing :: "dict \<Rightarrow> 'x \<Rightarrow> (exn + unit) \<times> 'x"
  generate_content :: "string \<Rightarrow> pyval \<Rightarrow> pyval \<Rightarrow> 'x \<Rightarrow> (exn + pyval) \<times> 'x"
  json_loads :: "string \<Rightarrow> exn + pyval"
  clock :: "'x \<Rightarrow> string \<times> 'x"

text \<open>
  \<open>BaseEnricher.validate_input\<close>: \<open>'Ticker' in company and company['Ticker']\<close>, read as
  a condition. \<open>BaseEnricher.enrich\<close> itself raises \<open>NotImplementedError\<close>, under the retry
  wrapper; every subclass overrides it.
\<close>

definition validate_input :: "dict \<Rightarrow> bool" where
  "validate_input company = (dict_contains ''Ticker'' company \<and> truthy (dict_get company ''Ticker''))"

definition BaseEnricher :: "'x enricher" where
  "BaseEnricher =
     \<lparr>name = ''BaseEnricher'',
      enrich = (\<lambda>company. retry_on_failure 2 1 ''enrich'' (\<lambda>w. (Inl NotImplementedError, w)))\<rparr>"

definition opt_str :: "string option \<Rightarrow> pyval" where
  "opt_str s = (case s of None \<Rightarrow> PNone | Some t \<Rightarrow> PStr t)"

definition opt_val :: "pyval option \<Rightarrow> pyval" where
  "opt_val v = (case v of None \<Rightarrow> PNone | Some t \<Rightarrow> t)"

text \<open>The dictionary comprehension \<open>{k: v for k, v in d.items() if v is not None}\<close>.\<close>

definition clean_none :: "dict \<Rightarrow> dict" where
  "clean_none d = filter (\<lambda>(k, v). v \<noteq> PNone) d"

subsection \<open>Yahoo Finance\<close>

definition calculate_avg_volume_value :: "'x providers \<Rightarrow> pyval \<Rightarrow> 'x world \<Rightarrow> pyval \<times> 'x world" where
  "calculate_avg_volume_value pr ticker w =
     (case yf_history pr ticker (ext w) of
        (Inl e, x) \<Rightarrow> (PNone, w\<lparr>ext := x\<rparr>)
      | (Inr None, x) \<Rightarrow> (PNone, w\<lparr>ext := x\<rparr>)
      | (Inr (Some (avg_volume, avg_price)), x) \<Rightarrow> (PFloat (avg_volume * avg_price), w\<lparr>ext := x\<rparr>))"

definition yahoo_enrich :: "'x providers \<Rightarrow> dict \<Rightarrow> ('x, dict) action" where
  "yahoo_enrich pr company w =
     (if \<not> validate_input company then (Inr [], w)
      else
        (case dict_item company ''Ticker'' of
           Inl e \<Rightarrow> (Inl e, w)
         | Inr ticker \<Rightarrow>
             (let w0 = log INFO (EnricherInfo ''YahooFinanceEnricher'' ticker) w
              in case yf_info pr ticker (ext w0) of
                   (Inl e, x) \<Rightarrow>
                     (Inl e, log ERROR (EnricherError ''YahooFinanceEnricher'' ticker e) (w0\<lparr>ext := x\<rparr>))
                 | (Inr info, x) \<Rightarrow>
                     (case calculate_avg_volume_value pr ticker (w0\<lparr>ext := x\<rparr>) of
                        (avg, w1) \<Rightarrow>
                          (Inr (clean_none
                             [(''Market Cap'', dict_get info ''marketCap''),
                              (''EV'', dict_get info ''enterpriseValue''),
                              (''Avg D Val Traded 3M'', avg),
                              (''GICS Sector'', dict_get info ''sector''),
                              (''GICS Ind Grp Name'', dict_get info ''industry''),
                              (''Cntry Tertry Of Dom'', dict_get info ''country'')]),
                           w1)))))"

definition YahooFinanceEnricher :: "'x providers \<Rightarrow> 'x enricher" where
  "YahooFinanceEnricher pr =
     \<lparr>name = ''YahooFinanceEnricher'',
      enrich = (\<lambda>company. retry_on_failure 2 1 ''enrich'' (yahoo_enrich pr company))\<rparr>"

subsection \<open>ISIN and sector classification (placeholders)\<close>

definition isin_enrich :: "dict \<Rightarrow> ('x, dict) action" where
  "isin_enrich company w =
     (if \<not> validate_input company then (Inr [], w)
      else
        (case dict_item company ''Ticker'' of
           Inl e \<Rightarrow> (Inl e, w)
         | Inr ticker \<Rightarrow> (Inr [], log INFO (EnricherInfo ''ISINEnricher'' ticker) w)))"

definition ISINEnricher :: "'x enricher" where
  "ISINEnricher =
     \<lparr>name = ''ISINEnricher'',
      enrich = (\<lambda>company. retry_on_failure 2 1 ''enrich'' (isin_enrich company))\<rparr>"

definition sector_enrich :: "dict \<Rightarrow> ('x, dict) action" where
  "sector_enrich company w =
     (if \<not> validate_input company then (Inr [], w)
      else
        (case dict_item company ''Ticker'' of
           Inl e \<Rightarrow> (Inl e, w)
         | Inr ticker \<Rightarrow> (Inr [], log INFO (EnricherInfo ''SectorClassificationEnricher'' ticker) w)))"

definition SectorClassificationEnricher :: "'x enricher" where
  "SectorClassificationEnricher =
     \<lparr>name = ''SectorClassificationEnricher'',
      enrich = (\<lambda>company. retry_on_failure 2 1 ''enrich'' (sector_enrich company))\<rparr>"

subsection \<open>SEC filings\<close>

text \<open>
  \<open>str.split()\<close> splits at runs of white space (the ASCII ones are modelled); \<open>[0]\<close> of an
  empty result raises \<open>IndexError\<close>, and a value that is not a string has no \<open>split\<close>.
\<close>

definition is_space :: "char \<Rightarrow> bool" where
  "is_space c = (let n = (of_char c :: nat) in (9 \<le> n \<and> n \<le> 13) \<or> (28 \<le> n \<and> n \<le> 32))"

definition split_first :: "pyval \<Rightarrow> exn + string" where
  "split_first v =
     (case v of
        PStr s \<Rightarrow>
          (case dropWhile is_space s of
             [] \<Rightarrow> Inl IndexError
           | c # cs \<Rightarrow> Inr (takeWhile (\<lambda>c. \<not> is_space c) (c # cs)))
      | _ \<Rightarrow> Inl AttributeError)"

definition FILING_TYPES :: "(string \<times> string) list" where
  "FILING_TYPES =
     [(''10-K'', ''Annual report''),
      (''10-Q'', ''Quarterly report''),
      (''8-K'', ''Current report (material events)''),
      (''DEF 14A'', ''Proxy statement''),
      (''20-F'', ''Annual report (foreign)''),
      (''S-1'', ''Registration statement''),
      (''424B'', ''Prospectus''),
      (''11-K'', ''Employee stock plan annual report''),
      (''SC 13D'', ''Beneficial ownership report''),
      (''SC 13G'', ''Beneficial ownership report (passive)''),
      (''13F'', ''Institutional holdings''),
      (''DEFA14A'', ''Additional proxy materials''),
      (''S-3'', ''Registration statement (simplified)''),
      (''S-8'', ''Employee benefit plan registration''),
      (''6-K'', ''Current report (foreign)''),
      (''40-F'', ''Annual report (Canadian)'')]"

text \<open>The dictionary \<open>_process_filings\<close> builds for one filing.\<close>

definition filing_data :: "filing \<Rightarrow> dict" where
  "filing_data f =
     [(''form_type'', PStr (form f)),
      (''filing_date'', opt_str (filing_date f)),
      (''accession_number'', PStr (accession_number f)),
      (''description'', PStr (case map_of FILING_TYPES (form f) of None \<Rightarrow> form f | Some d \<Rightarrow> d)),
      (''filing_url'', PStr (url f)),
      (''document_url'', opt_str (document_url f)),
      (''interactive_url'', opt_val (viewer_url f)),
      (''file_number'', opt_val (file_number f)),
      (''size'', opt_val (filing_size f))]
     @ (case attachments f of
          None \<Rightarrow> []
        | Some atts \<Rightarrow>
            (case filter (\<lambda>(document_type, u). document_type = form f) atts of
               [] \<Rightarrow> []
             | (document_type, u) # _ \<Rightarrow> [(''primary_document_url'', PStr u)]))"

fun process_filings_loop :: "(exn + filing) list \<Rightarrow> dict list \<Rightarrow> 'x world \<Rightarrow> dict list \<times> 'x world" where
  "process_filings_loop [] processed_filings w = (processed_filings, w)"
| "process_filings_loop (Inr f # rest) processed_filings w =
     process_filings_loop rest (processed_filings @ [filing_data f]) w"
| "process_filings_loop (Inl e # rest) processed_filings w =
     process_filings_loop rest processed_filings (log WARNING (ProcessFilingFailed e) w)"

text \<open>
  Comparison of strings by code point, and \<open>list.sort(key=..., reverse=True)\<close> on the
  filing dates: stable, most recent first. Comparing \<open>None\<close> with anything raises
  \<open>TypeError\<close>, and sorting two or more elements compares each of them at least once.
\<close>

fun str_less :: "string \<Rightarrow> string \<Rightarrow> bool" where
  "str_less [] [] = False"
| "str_less [] (y # ys) = True"
| "str_less (x # xs) [] = False"
| "str_less (x # xs) (y # ys) =
     ((of_char x :: nat) < of_char y \<or> (x = y \<and> str_less xs ys))"

definition date_key :: "dict \<Rightarrow> string option" where
  "date_key f = (case dict_get_default f ''filing_date'' (PStr []) of PStr s \<Rightarrow> Some s | _ \<Rightarrow> None)"

fun insert_desc :: "dict \<Rightarrow> dict list \<Rightarrow> dict list" where
  "insert_desc f [] = [f]"
| "insert_desc f (g # gs) =
     (if str_less (the (date_key g)) (the (date_key f)) then f # g # gs else g # insert_desc f gs)"

definition sort_by_date_desc :: "dict list \<Rightarrow> exn + dict list" where
  "sort_by_date_desc fs =
     (if 2 \<le> length fs \<and> (\<exists>f \<in> set fs. date_key f = None) then Inl TypeError
      else Inr (foldl (\<lambda>acc f. insert_desc f acc) [] fs))"

definition process_filings :: "(exn + filing) list \<Rightarrow> ('x, dict list) action" where
  "process_filings filings w =
     (case process_filings_loop filings [] w of
        (processed_filings, w1) \<Rightarrow>
          (case sort_by_date_desc processed_filings of
             Inl e \<Rightarrow> (Inl e, w1)
           | Inr ordered \<Rightarrow> (Inr ordered, w1)))"

text \<open>
  \<open>_get_latest_filing_url\<close>: the first filing of the form, its \<open>document_url or
  filing_url\<close>; \<open>None\<close> when there is no filing of the form.
\<close>

fun get_latest_filing_url :: "dict list \<Rightarrow> string \<Rightarrow> pyval" where
  "get_latest_filing_url [] form_type = PNone"
| "get_latest_filing_url (f # filings) form_type =
     (if dict_get f ''form_type'' = PStr form_type then
        (if truthy (dict_get f ''document_url'') then dict_get f ''document_url''
         else dict_get f ''filing_url'')
      else get_latest_filing_url filings form_type)"

text \<open>
  \<open>_create_filings_summary\<close>: per form type, in order of first appearance, the count and
  the latest date. The comparison of the dates is the one of Python: only two strings
  compare. The form type is a string in every dictionary that \<open>_process_filings\<close> builds.
\<close>

definition py_greater :: "pyval \<Rightarrow> pyval \<Rightarrow> exn + bool" where
  "py_greater a b =
     (case (a, b) of
        (PStr s, PStr t) \<Rightarrow> Inr (str_less t s)
      | _ \<Rightarrow> Inl TypeError)"

definition summary_entry :: "dict \<Rightarrow> string \<Rightarrow> nat \<times> pyval" where
  "summary_entry summary form_type =
     (case map_of summary form_type of
        Some (PDict e) \<Rightarrow>
          (case dict_get e ''count'' of PInt n \<Rightarrow> (nat n, dict_get e ''latest_date'') | _ \<Rightarrow> (0, PNone))
      | _ \<Rightarrow> (0, PNone))"

definition summary_put :: "dict \<Rightarrow> string \<Rightarrow> nat \<Rightarrow> pyval \<Rightarrow> dict" where
  "summary_put summary form_type n latest =
     AList.update form_type (PDict [(''count'', PInt (int n)), (''latest_date'', latest)]) summary"

fun create_filings_summary_loop :: "dict list \<Rightarrow> dict \<Rightarrow> exn + dict" where
  "create_filings_summary_loop [] summary = Inr summary"
| "create_filings_summary_loop (f # filings) summary =
     (case dict_get f ''form_type'' of
        PStr form_type \<Rightarrow>
          (if form_type = [] then create_filings_summary_loop filings summary
           else
             (case summary_entry summary form_type of
                (n, latest) \<Rightarrow>
                  (if \<not> truthy latest then
                     create_filings_summary_loop filings
                       (summary_put summary form_type (n + 1) (dict_get f ''filing_date''))
                   else
                     (case py_greater (dict_get_default f ''filing_date'' (PStr [])) latest of
                        Inl e \<Rightarrow> Inl e
                      | Inr True \<Rightarrow>
                          create_filings_summary_loop filings
                            (summary_put summary form_type (n + 1) (dict_get f ''filing_date''))
                      | Inr False \<Rightarrow>
                          create_filings_summary_loop filings
                            (summary_put summary form_type (n + 1) latest)))))
      | _ \<Rightarrow> create_filings_summary_loop filings summary)"

definition create_filings_summary :: "dict list \<Rightarrow> exn + dict" where
  "create_filings_summary filings = create_filings_summary_loop filings []"

text \<open>
  \<open>_store_detailed_filings\<close>: a new \<open>DatabaseManager\<close> (whose construction may fail), then
  one upsert for each of the first 20 filings, each under a bare \<open>except: pass\<close>.
\<close>

definition filing_record :: "string \<Rightarrow> dict \<Rightarrow> dict" where
  "filing_record ticker f =
     [(''ticker'', PStr ticker),
      (''form_type'', dict_get f ''form_type''),
      (''filing_date'', dict_get f ''filing_date''),
      (''accession_number'', dict_get f ''accession_number''),
      (''filing_url'', dict_get f ''filing_url''),
      (''document_url'', dict_get f ''document_url''),
      (''metadata'', PDict f)]"

fun upsert_filings :: "'x providers \<Rightarrow> string \<Rightarrow> dict list \<Rightarrow> 'x world \<Rightarrow> 'x world" where
  "upsert_filings pr ticker [] w = w"
| "upsert_filings pr ticker (f # filings) w =
     upsert_filings pr ticker filings (w\<lparr>ext := snd (upsert_filing pr (filing_record ticker f) (ext w))\<rparr>)"

definition store_detailed_filings :: "'x providers \<Rightarrow> string \<Rightarrow> dict list \<Rightarrow> 'x world \<Rightarrow> 'x world" where
  "store_detailed_filings pr ticker filings w =
     (case create_client pr (ext w) of
        (Inl e, x) \<Rightarrow> log WARNING (StoreFilingsFailed ticker e) (w\<lparr>ext := x\<rparr>)
      | (Inr u, x) \<Rightarrow> upsert_filings pr ticker (take 20 filings) (log INFO ConnectedToSupabase (w\<lparr>ext := x\<rparr>)))"

text \<open>
  \<open>SECFilingsEnricher.enrich\<close>. The ticker is cleaned before the \<open>try\<close>, so a failure
  there is not logged by the method. Inside the \<open>try\<close> every failure is logged and raised
  again. The dictionary is returned as built: there is no removal of \<open>None\<close> values here.
\<close>

definition sec_try :: "'x providers \<Rightarrow> string \<Rightarrow> string \<Rightarrow> ('x, dict) action" where
  "sec_try pr lookback ticker w =
     (case edgar_lookup pr ticker (ext w) of
        (Inl e, x) \<Rightarrow> (Inl e, w\<lparr>ext := x\<rparr>)
      | (Inr None, x) \<Rightarrow> (Inr [], log INFO (NotInEdgar ticker) (w\<lparr>ext := x\<rparr>))
      | (Inr (Some edgar), x) \<Rightarrow>
          (case edgar_filings pr edgar (map fst FILING_TYPES) lookback x of
             (Inl e, x1) \<Rightarrow> (Inl e, w\<lparr>ext := x1\<rparr>)
           | (Inr filings, x1) \<Rightarrow>
               (case process_filings filings (w\<lparr>ext := x1\<rparr>) of
                  (Inl e, w1) \<Rightarrow> (Inl e, w1)
                | (Inr filings_data, w1) \<Rightarrow>
                    (case create_filings_summary filings_data of
                       Inl e \<Rightarrow> (Inl e, w1)
                     | Inr summary \<Rightarrow>
                         (case clock pr (ext w1) of
                            (ts, x2) \<Rightarrow>
                              (Inr [(''sec_cik'', cik edgar),
                                    (''sec_company_name'', edgar_name edgar),
                                    (''sec_filings_count'', PInt (int (length filings_data))),
                                    (''sec_latest_10k'', get_latest_filing_url filings_data ''10-K''),
                                    (''sec_latest_10q'', get_latest_filing_url filings_data ''10-Q''),
                                    (''sec_latest_8k'', get_latest_filing_url filings_data ''8-K''),
                                    (''sec_latest_proxy'', get_latest_filing_url filings_data ''DEF 14A''),
                                    (''sec_filings_summary'', PDict summary),
                                    (''sec_last_updated'', PStr ts)],
                               store_detailed_filings pr ticker filings_data (w1\<lparr>ext := x2\<rparr>)))))))"

definition sec_enrich :: "'x providers \<Rightarrow> string \<Rightarrow> dict \<Rightarrow> ('x, dict) action" where
  "sec_enrich pr lookback company w =
     (if \<not> validate_input company then (Inr [], w)
      else
        (case dict_item company ''Ticker'' of
           Inl e \<Rightarrow> (Inl e, w)
         | Inr raw_ticker \<Rightarrow>
             (case split_first raw_ticker of
                Inl e \<Rightarrow> (Inl e, w)
              | Inr ticker \<Rightarrow>
                  (case sec_try pr lookback ticker (log INFO (SECFetching ticker raw_ticker) w) of
                     (Inl e, w1) \<Rightarrow> (Inl e, log ERROR (EnricherError ''SECFilingsEnricher'' (PStr ticker) e) w1)
                   | (Inr enriched_data, w1) \<Rightarrow> (Inr enriched_data, w1)))))"

definition SECFilingsEnricher :: "'x providers \<Rightarrow> string \<Rightarrow> 'x enricher" where
  "SECFilingsEnricher pr lookback =
     \<lparr>name = ''SECFilingsEnricher'',
      enrich = (\<lambda>company. retry_on_failure 2 1 ''enrich'' (sec_enrich pr lookback company))\<rparr>"

subsection \<open>LLM investor information\<close>

definition strip :: "string \<Rightarrow> string" where
  "strip s = rev (dropWhile is_space (rev (dropWhile is_space s)))"

definition endswith :: "string \<Rightarrow> string \<Rightarrow> bool" where
  "endswith s suffix = (length suffix \<le> length s \<and> drop (length s - length suffix) s = suffix)"

definition py_len :: "pyval \<Rightarrow> exn + nat" where
  "py_len v =
     (case v of
        PStr s \<Rightarrow> Inr (length s)
      | PList xs \<Rightarrow> Inr (length xs)
      | PDict d \<Rightarrow> Inr (length d)
      | _ \<Rightarrow> Inl TypeError)"

text \<open>
  \<open>_parse_llm_response\<close>: every failure inside is caught and gives \<open>None\<close>. A response
  text that is not a string fails at \<open>strip\<close>.
\<close>

definition parse_llm_response :: "'x providers \<Rightarrow> pyval \<Rightarrow> 'x world \<Rightarrow> dict option \<times> 'x world" where
  "parse_llm_response pr response_text w =
     (case response_text of
        PStr s \<Rightarrow>
          (let t0 = strip s;
               t1 = (if take 7 t0 = ''```json'' then drop 7 t0 else t0);
               t2 = (if endswith t1 ''```'' then take (length t1 - 3) t1 else t1);
               t3 = strip t2
           in case json_loads pr t3 of
                Inl JSONDecodeError \<Rightarrow>
                  (None, log DEBUG (LLMRawResponse t3) (log ERROR (LLMParseFailed JSONDecodeError) w))
              | Inl e \<Rightarrow> (None, log ERROR (LLMParseFailed e) w)
              | Inr (PDict d) \<Rightarrow> (Some d, w)
              | Inr v \<Rightarrow> (None, log WARNING (LLMNotDict v) w))
      | _ \<Rightarrow> (None, log ERROR (LLMParseFailed AttributeError) w))"

definition llm_model :: string where
  "llm_model = ''gemini-2.5-flash''"

definition llm_try :: "'x providers \<Rightarrow> pyval \<Rightarrow> pyval \<Rightarrow> ('x, dict) action" where
  "llm_try pr company_name ticker w =
     (case generate_content pr llm_model company_name ticker (ext w) of
        (Inl e, x) \<Rightarrow> (Inl e, w\<lparr>ext := x\<rparr>)
      | (Inr response_text, x) \<Rightarrow>
          (case parse_llm_response pr response_text (w\<lparr>ext := x\<rparr>) of
             (None, w1) \<Rightarrow> (Inr [], log WARNING (LLMNoData ticker) w1)
           | (Some investor_data, w1) \<Rightarrow>
               (if investor_data = [] then (Inr [], log WARNING (LLMNoData ticker) w1)
                else
                  (case py_len (dict_get_default investor_data ''corporate_presentation_urls'' (PList [])) of
                     Inl e \<Rightarrow> (Inl e, w1)
                   | Inr n \<Rightarrow>
                       (case clock pr (ext w1) of
                          (ts, x1) \<Rightarrow>
                            (Inr (clean_none
                               [(''llm_primary_website'', dict_get investor_data ''primary_website''),
                                (''llm_investor_section_url'', dict_get investor_data ''investor_section_url''),
                                (''llm_corporate_presentations'',
                                   dict_get investor_data ''corporate_presentation_urls''),
                                (''llm_presentations_count'', PInt (int n)),
                                (''llm_enrichment_model'', PStr llm_model),
                                (''llm_last_updated'', PStr ts)]),
                             log INFO (LLMExtracted ticker) (w1\<lparr>ext := x1\<rparr>)))))))"

definition llm_enrich :: "'x providers \<Rightarrow> dict \<Rightarrow> ('x, dict) action" where
  "llm_enrich pr company w =
     (if \<not> validate_input company then (Inr [], w)
      else
        (case dict_item company ''Ticker'' of
           Inl e \<Rightarrow> (Inl e, w)
         | Inr ticker \<Rightarrow>
             (let company_name = dict_get_default company ''Security'' ticker
              in case llm_try pr company_name ticker (log INFO (LLMFetching company_name ticker) w) of
                   (Inl e, w1) \<Rightarrow>
                     (Inl e, log ERROR (EnricherError ''LLMInvestorInformationEnricher'' ticker e) w1)
                 | (Inr enriched_data, w1) \<Rightarrow> (Inr enriched_data, w1))))"

definition LLMInvestorInformationEnricher :: "'x providers \<Rightarrow> 'x enricher" where
  "LLMInvestorInformationEnricher pr =
     \<lparr>name = ''LLMInvestorInformationEnricher'',
      enrich = (\<lambda>company. retry_on_failure 2 1 ''enrich'' (llm_enrich pr company))\<rparr>"

subsection \<open>The registry\<close>

text \<open>
  \<open>ENABLED_ENRICHERS\<close> as main.py has it (the other four entries are commented out), and
  the five enricher classes of the package.
\<close>

definition ENABLED_ENRICHERS :: "'x providers \<Rightarrow> 'x enricher list" where
  "ENABLED_ENRICHERS pr = [LLMInvestorInformationEnricher pr]"

definition enricher_classes :: "'x providers \<Rightarrow> string \<Rightarrow> 'x enricher list" where
  "enricher_classes pr lookback =
     [YahooFinanceEnricher pr, ISINEnricher, SectorClassificationEnricher,
      SECFilingsEnricher pr lookback, LLMInvestorInformationEnricher pr]"

text \<open>No entry of a dictionary is \<open>None\<close>.\<close>

definition no_nulls :: "dict \<Rightarrow> bool" where
  "no_nulls d = list_all (\<lambda>(k, v). v \<noteq> PNone) d"

section \<open>Observations of a run\<close>

text \<open>
  What each enricher returns for a company, in the enabled order, each call made in the
  world the calls before it left.
\<close>

fun enrich_outcomes :: "'x enricher list \<Rightarrow> dict \<Rightarrow> 'x world \<Rightarrow> (exn + dict) list" where
  "enrich_outcomes [] company w = []"
| "enrich_outcomes (enricher # rest) company w =
     (case enrich enricher company w of (r, w1) \<Rightarrow> r # enrich_outcomes rest company w1)"

fun enrich_world :: "'x enricher list \<Rightarrow> dict \<Rightarrow> 'x world \<Rightarrow> 'x world" where
  "enrich_world [] company w = w"
| "enrich_world (enricher # rest) company w =
     enrich_world rest company (snd (enrich enricher company w))"

text \<open>The merge of the successful results, and the warnings for the failed ones.\<close>

definition merged :: "(exn + dict) list \<Rightarrow> dict" where
  "merged outs = foldl dict_update [] (map projr (filter (\<lambda>r. \<not> isl r) outs))"

definition failure_warnings ::
  "'x enricher list \<Rightarrow> dict \<Rightarrow> (exn + dict) list \<Rightarrow> (level \<times> message) list"
where
  "failure_warnings enrichers company outs =
     map (\<lambda>(enricher, r). (WARNING, EnricherFailed (name enricher) (dict_get company ''Ticker'') (projl r)))
       (filter (\<lambda>(enricher, r). isl r) (zip enrichers outs))"

text \<open>
  The number of results the loop appends to the buffer over a list of companies, and the
  number of flushes (calls of the batch update) it makes, read off the journal.
\<close>

fun appended ::
  "'x services \<Rightarrow> 'x enricher list \<Rightarrow> config \<Rightarrow> nat \<Rightarrow> nat \<Rightarrow> dict list \<Rightarrow> pipeline \<times> 'x world \<Rightarrow> nat"
where
  "appended db enrichers cfg total_companies idx [] s = 0"
| "appended db enrichers cfg total_companies idx (company # rest) s =
     (if merged (enrich_outcomes enrichers company (snd s)) \<noteq> [] then 1 else 0)
     + appended db enrichers cfg total_companies (idx + 1) rest
         (process_company db enrichers cfg total_companies idx company s)"

fun is_flush :: "level \<times> message \<Rightarrow> bool" where
  "is_flush (l, SavingRecords n) = True"
| "is_flush (l, m) = False"

definition flushes :: "pipeline \<Rightarrow> nat" where
  "flushes p = length (filter is_flush (journal p))"

section \<open>Test doubles\<close>

text \<open>
  Concrete providers, datastores and enrichers on which the theorems below are
  instantiated.
\<close>

text \<open>
  A datastore: the rows of the company table, the number of update calls received and the
  updates applied. \<open>mock_db fails\<close> rejects the update calls whose number (from 0)
  satisfies \<open>fails\<close> and applies the others; a \<open>limit\<close> clause returns the first rows.
\<close>

record store =
  table :: "dict list"
  db_calls :: nat
  written :: "(pyval \<times> dict) list"

definition mock_db :: "(nat \<Rightarrow> bool) \<Rightarrow> store services" where
  "mock_db fails =
     \<lparr>now_iso = (\<lambda>x. (''2024-01-01T00:00:00'', x)),
      select_companies = (\<lambda>q x. (Inr (case q of None \<Rightarrow> table x | Some n \<Rightarrow> take (nat n) (table x)), x)),
      update_row = (\<lambda>t u x.
         if fails (db_calls x)
         then (Inl (External ''write failed''), x\<lparr>db_calls := Suc (db_calls x)\<rparr>)
         else (Inr (), x\<lparr>db_calls := Suc (db_calls x), written := written x @ [(t, u)]\<rparr>)),
      insert_log = (\<lambda>e x. (Inr (), x))\<rparr>"

definition world0 :: "dict list \<Rightarrow> store world" where
  "world0 rows = \<lparr>logged = [], slept = [], ext = \<lparr>table = rows, db_calls = 0, written = []\<rparr>\<rparr>"

text \<open>Enrichers that always return the same result, or always raise.\<close>

definition const_enricher :: "string \<Rightarrow> dict \<Rightarrow> 'x enricher" where
  "const_enricher nm result = \<lparr>name = nm, enrich = (\<lambda>company w. (Inr result, w))\<rparr>"

definition raising_enricher :: "string \<Rightarrow> 'x enricher" where
  "raising_enricher nm = \<lparr>name = nm, enrich = (\<lambda>company w. (Inl (External ''provider down''), w))\<rparr>"

definition AAPL :: dict where
  "AAPL = [(''Ticker'', PStr ''AAPL'')]"

definition MSFT :: dict where
  "MSFT = [(''Ticker'', PStr ''MSFT'')]"

text \<open>
  Providers with fixed answers that leave the external state alone: a quote without
  enterprise value, industry and country, an empty price history, an EDGAR company with
  the given filings, and a completion whose JSON has no investor section.
\<close>

definition mock_providers :: "(exn + filing) list \<Rightarrow> 'x providers" where
  "mock_providers filings =
     \<lparr>yf_info = (\<lambda>t x. (Inr [(''marketCap'', PInt 100), (''sector'', PStr ''Technology'')], x)),
      yf_history = (\<lambda>t x. (Inr None, x)),
      edgar_lookup = (\<lambda>t x. (Inr (Some \<lparr>cik = PInt 320193, edgar_name = PStr ''Apple Inc.''\<rparr>), x)),
      edgar_filings = (\<lambda>c forms since x. (Inr filings, x)),
      create_client = (\<lambda>x. (Inr (), x)),
      upsert_filing = (\<lambda>d x. (Inr (), x)),
      generate_content = (\<lambda>m n t x. (Inr (PStr ''{...}''), x)),
      json_loads = (\<lambda>s. Inr (PDict [(''primary_website'', PStr ''https://www.apple.com''),
                                      (''investor_section_url'', PNone),
                                      (''corporate_presentation_urls'', PList [])])),
      clock = (\<lambda>x. (''2024-01-01T00:00:00'', x))\<rparr>"

definition quarterly_report :: filing where
  "quarterly_report =
     \<lparr>form = ''10-Q'', filing_date = Some ''2024-05-03'', accession_number = ''0000320193-24-000069'',
      url = ''https://www.sec.gov/f/10q'', document_url = Some ''https://www.sec.gov/d/10q'',
      viewer_url = None, file_number = None, filing_size = None, attachments = None\<rparr>"

text \<open>
  A Yahoo provider whose quote fails on its first two calls and then answers, and one
  that always fails; their external state is the number of quote calls made so far.
\<close>

definition flaky_providers :: "nat providers" where
  "flaky_providers =
     (mock_providers [])\<lparr>yf_info := (\<lambda>t x. (if x < 2 then Inl (External ''timeout'')
                                                else Inr [(''marketCap'', PInt 100)], Suc x))\<rparr>"

definition broken_providers :: "nat providers" where
  "broken_providers = (mock_providers [])\<lparr>yf_info := (\<lambda>t x. (Inl (External ''down''), Suc x))\<rparr>"

definition fresh_world :: "nat world" where
  "fresh_world = \<lparr>logged = [], slept = [], ext = 0\<rparr>"

section \<open>Verified properties\<close>

subsection \<open>The world and the retry loop\<close>

lemma log_sel [simp]:
  "logged (log l m w) = logged w @ [(l, m)]" "slept (log l m w) = slept w" "ext (log l m w) = ext w"
  by (simp_all add: log_def)

lemma sleep_nonneg: "0 \<le> s \<Longrightarrow> sleep s w = Inr (w\<lparr>slept := slept w @ [s]\<rparr>)"
  by (simp add: sleep_def)

lemma retry_events_log [simp]:
  "retry_events (log l m w) = retry_events w @ (if is_retry_event (l, m) then [(l, m)] else [])"
  by (simp add: retry_events_def)

lemma retry_events_update [simp]:
  "retry_events (w\<lparr>ext := x\<rparr>) = retry_events w"
  "retry_events (w\<lparr>slept := sl\<rparr>) = retry_events w"
  by (simp_all add: retry_events_def)

lemma retry_events_after_failed_attempt:
  "retry_events (after_failed_attempt d n a e w) =
     retry_events w @ [(WARNING, AttemptFailed (int a + 1) n e)]"
  by (simp add: after_failed_attempt_def)

lemma sleep_after_warning:
  "0 \<le> d \<Longrightarrow>
   sleep (d * of_int (int a + 1)) (log WARNING (AttemptFailed (int a + 1) n e) w) =
     Inr (after_failed_attempt d n a e w)"
  by (simp add: sleep_def after_failed_attempt_def log_def not_less)

lemma retry_loop_succeeds:
  assumes d: "0 \<le> d"
  shows "\<forall>i<k. isl (fst (func (attempt_world d n func a i w))) \<Longrightarrow>
   fst (func (attempt_world d n func a k w)) = Inr v \<Longrightarrow> int a + int k \<le> R \<Longrightarrow>
   retry_loop R d n func (int a) le w = (Inr v, snd (func (attempt_world d n func a k w)))"
proof (induction k arbitrary: a w le)
  case 0
  then obtain w1 where fw: "func w = (Inr v, w1)" by (cases "func w") auto
  from 0 have "int a < R + 1" by simp
  then show ?case by (subst retry_loop.simps) (simp add: fw)
next
  case (Suc k)
  from Suc.prems(1) have "isl (fst (func (attempt_world d n func a 0 w)))" by blast
  then obtain e w1 where fw: "func w = (Inl e, w1)"
    by (cases "func w") (auto simp: isl_def)
  let ?w2 = "after_failed_attempt d n a e w1"
  have sh: "attempt_world d n func a (Suc i) w = attempt_world d n func (Suc a) i ?w2" for i
    by (simp add: fw)
  have p1: "\<forall>i<k. isl (fst (func (attempt_world d n func (Suc a) i ?w2)))"
    using Suc.prems(1) sh by (metis Suc_less_eq)
  have p2: "fst (func (attempt_world d n func (Suc a) k ?w2)) = Inr v"
    using Suc.prems(2) sh by simp
  have p3: "int (Suc a) + int k \<le> R" using Suc.prems(3) by simp
  have lt: "int a < R" "int a < R + 1" using Suc.prems(3) by simp_all
  have step: "retry_loop R d n func (int a) le w = retry_loop R d n func (int a + 1) (Some e) ?w2"
    using sleep_after_warning[OF d, of a n e w1] lt
    by (subst retry_loop.simps) (simp add: fw)
  have e1: "int a + 1 = int (Suc a)" by simp
  show ?case
    unfolding step e1 sh by (rule Suc.IH[OF p1 p2 p3])
qed

lemma retry_loop_exhausts:
  assumes d: "0 \<le> d"
  shows "\<forall>i\<le>m. isl (fst (func (attempt_world d n func a i w))) \<Longrightarrow> int a + int m = R \<Longrightarrow>
   retry_loop R d n func (int a) le w =
     (Inl (projl (fst (func (attempt_world d n func a m w)))),
      log ERROR (AllAttemptsFailed (R + 1) n) (snd (func (attempt_world d n func a m w))))"
proof (induction m arbitrary: a w le)
  case 0
  then have "isl (fst (func w))" by simp
  then obtain e w1 where fw: "func w = (Inl e, w1)"
    by (cases "func w") (auto simp: isl_def)
  from 0 have a: "int a = R" by simp
  have "retry_loop R d n func (int a) le w =
          retry_loop R d n func (R + 1) (Some e) (log ERROR (AllAttemptsFailed (R + 1) n) w1)"
    by (subst retry_loop.simps) (simp add: fw a)
  also have "\<dots> = (Inl e, log ERROR (AllAttemptsFailed (R + 1) n) w1)"
    by (subst retry_loop.simps) simp
  finally show ?case by (simp add: fw)
next
  case (Suc m)
  from Suc.prems(1) have "isl (fst (func (attempt_world d n func a 0 w)))" by blast
  then obtain e w1 where fw: "func w = (Inl e, w1)"
    by (cases "func w") (auto simp: isl_def)
  let ?w2 = "after_failed_attempt d n a e w1"
  have sh: "attempt_world d n func a (Suc i) w = attempt_world d n func (Suc a) i ?w2" for i
    by (simp add: fw)
  have p1: "\<forall>i\<le>m. isl (fst (func (attempt_world d n func (Suc a) i ?w2)))"
    using Suc.prems(1) sh by (metis Suc_le_mono)
  have p2: "int (Suc a) + int m = R" using Suc.prems(2) by simp
  have lt: "int a < R" "int a < R + 1" using Suc.prems(2) by simp_all
  have step: "retry_loop R d n func (int a) le w = retry_loop R d n func (int a + 1) (Some e) ?w2"
    using sleep_after_warning[OF d, of a n e w1] lt
    by (subst retry_loop.simps) (simp add: fw)
  have e1: "int a + 1 = int (Suc a)" by simp
  show ?case
    unfolding step e1 sh by (rule Suc.IH[OF p1 p2])
qed

lemma retry_events_attempt_world:
  assumes k: "keeps_retry_events func"
  shows "retry_events (attempt_world d n func a k w) =
     retry_events w @
       map (\<lambda>i. (WARNING, AttemptFailed (int a + int i + 1) n
                    (projl (fst (func (attempt_world d n func a i w)))))) [0..<k]"
proof (induction k arbitrary: a w)
  case 0
  show ?case by simp
next
  case (Suc k)
  let ?w2 = "after_failed_attempt d n a (projl (fst (func w))) (snd (func w))"
  have up: "[0..<Suc k] = 0 # map Suc [0..<k]"
    by (simp add: upt_conv_Cons map_Suc_upt del: upt_Suc)
  have kw: "retry_events (snd (func w)) = retry_events w"
    using k by (simp add: keeps_retry_events_def)
  have "retry_events (attempt_world d n func a (Suc k) w) =
          retry_events ?w2 @
            map (\<lambda>i. (WARNING, AttemptFailed (int (Suc a) + int i + 1) n
                    (projl (fst (func (attempt_world d n func (Suc a) i ?w2)))))) [0..<k]"
    using Suc.IH[of "Suc a" ?w2] by simp
  also have "\<dots> = retry_events w @
       map (\<lambda>i. (WARNING, AttemptFailed (int a + int i + 1) n
                    (projl (fst (func (attempt_world d n func a i w)))))) [0..<Suc k]"
    unfolding up by (simp add: retry_events_after_failed_attempt kw comp_def add.commute add.left_commute)
  finally show ?case .
qed

lemma retry_events_attempt_result:
  "keeps_retry_events func \<Longrightarrow>
   retry_events (snd (attempt_result d n func k w)) = retry_events w @ failed_attempts d n func k w"
  using retry_events_attempt_world[of func d n 0 k w]
  by (simp add: attempt_result_def failed_attempts_def keeps_retry_events_def)

lemma count_level_append [simp]:
  "count_level l (xs @ ys) = count_level l xs + count_level l ys"
  by (simp add: count_level_def)

lemma count_level_simps [simp]:
  "count_level l [] = 0"
  "count_level l ((l', m) # evs) = (if l' = l then Suc (count_level l evs) else count_level l evs)"
  by (simp_all add: count_level_def)

lemma count_level_failed_attempts [simp]:
  "count_level WARNING (failed_attempts d n func k w) = k"
  "count_level ERROR (failed_attempts d n func k w) = 0"
  by (simp_all add: count_level_def failed_attempts_def filter_map comp_def)

lemma retry_on_failure_negative_delay:
  assumes "d < 0" and "0 < R" and "func w = (Inl e, w1)"
  shows "retry_on_failure R d n func w = (Inl ValueError, log WARNING (AttemptFailed 1 n e) w1)"
proof -
  have "sleep (d * of_int (0 + 1)) (log WARNING (AttemptFailed (0 + 1) n e) w1) = Inl ValueError"
    using assms(1) by (simp add: sleep_def)
  then show ?thesis
    unfolding retry_on_failure_def using assms(2,3)
    by (subst retry_loop.simps) simp
qed


lemma keeps_retry_events_yahoo: "keeps_retry_events (yahoo_enrich pr company)"
  by (auto simp: keeps_retry_events_def yahoo_enrich_def calculate_avg_volume_value_def Let_def
        split: sum.splits prod.splits option.splits)

lemma keeps_retry_events_isin: "keeps_retry_events (isin_enrich company)"
  by (auto simp: keeps_retry_events_def isin_enrich_def split: sum.splits)

lemma keeps_retry_events_sector: "keeps_retry_events (sector_enrich company)"
  by (auto simp: keeps_retry_events_def sector_enrich_def split: sum.splits)

lemma retry_events_parse_llm_response:
  "retry_events (snd (parse_llm_response pr t w)) = retry_events w"
proof (cases t)
  case (PStr s)
  show ?thesis
    unfolding parse_llm_response_def PStr pyval.case Let_def
    by (cases "json_loads pr (strip (if endswith (if take 7 (strip s) = ''```json'' then drop 7 (strip s) else strip s) ''```''
                 then take (length (if take 7 (strip s) = ''```json'' then drop 7 (strip s) else strip s) - 3)
                        (if take 7 (strip s) = ''```json'' then drop 7 (strip s) else strip s)
                 else (if take 7 (strip s) = ''```json'' then drop 7 (strip s) else strip s)))")
       (simp_all split: exn.splits pyval.splits)
qed (simp_all add: parse_llm_response_def)

lemma retry_events_llm_try: "retry_events (snd (llm_try pr cn t w)) = retry_events w"
proof -
  obtain r x where g: "generate_content pr llm_model cn t (ext w) = (r, x)"
    by (cases "generate_content pr llm_model cn t (ext w)")
  show ?thesis
  proof (cases r)
    case (Inl e)
    then show ?thesis by (simp add: llm_try_def g)
  next
    case (Inr rt)
    obtain o' w1 where pa: "parse_llm_response pr rt (w\<lparr>ext := x\<rparr>) = (o', w1)"
      by (cases "parse_llm_response pr rt (w\<lparr>ext := x\<rparr>)")
    have e1: "retry_events w1 = retry_events w"
      using retry_events_parse_llm_response[of pr rt "w\<lparr>ext := x\<rparr>"] by (simp add: pa)
    show ?thesis
    proof (cases o')
      case None
      then show ?thesis by (simp add: llm_try_def g Inr pa e1)
    next
      case (Some d)
      show ?thesis
        unfolding llm_try_def g prod.case Inr sum.case pa Some option.case
        by (simp add: e1 split: sum.splits prod.splits)
    qed
  qed
qed

lemma keeps_retry_events_llm: "keeps_retry_events (llm_enrich pr company)"
  unfolding keeps_retry_events_def
proof
  fix w
  show "retry_events (snd (llm_enrich pr company w)) = retry_events w"
  proof (cases "validate_input company")
    case False
    then show ?thesis by (simp add: llm_enrich_def)
  next
    case True
    show ?thesis
    proof (cases "dict_item company ''Ticker''")
      case (Inl e)
      then show ?thesis using True by (simp add: llm_enrich_def)
    next
      case (Inr t)
      let ?cn = "dict_get_default company ''Security'' t"
      let ?w0 = "log INFO (LLMFetching ?cn t) w"
      obtain r w1 where lt: "llm_try pr ?cn t ?w0 = (r, w1)" by (cases "llm_try pr ?cn t ?w0")
      have "retry_events w1 = retry_events w"
        using retry_events_llm_try[of pr ?cn t ?w0] by (simp add: lt)
      then show ?thesis
        using True by (cases r) (simp_all add: llm_enrich_def Inr Let_def lt)
    qed
  qed
qed

lemma retry_events_process_filings_loop:
  "retry_events (snd (process_filings_loop fs acc w)) = retry_events w"
  by (induction fs acc w rule: process_filings_loop.induct) simp_all

lemma retry_events_process_filings:
  "retry_events (snd (process_filings fs w)) = retry_events w"
proof -
  obtain pf w1 where l: "process_filings_loop fs [] w = (pf, w1)"
    by (cases "process_filings_loop fs [] w")
  have "retry_events w1 = retry_events w"
    using retry_events_process_filings_loop[of fs "[]" w] by (simp add: l)
  then show ?thesis
    by (cases "sort_by_date_desc pf") (simp_all add: process_filings_def l)
qed

lemma retry_events_upsert_filings:
  "retry_events (upsert_filings pr t fs w) = retry_events w"
  by (induction fs arbitrary: w) simp_all

lemma retry_events_store_detailed_filings:
  "retry_events (store_detailed_filings pr t fs w) = retry_events w"
proof -
  obtain r x where c: "create_client pr (ext w) = (r, x)" by (cases "create_client pr (ext w)")
  show ?thesis
    by (cases r) (simp_all add: store_detailed_filings_def c retry_events_upsert_filings)
qed

lemma retry_events_sec_try: "retry_events (snd (sec_try pr lb t w)) = retry_events w"
proof -
  obtain r x where l: "edgar_lookup pr t (ext w) = (r, x)" by (cases "edgar_lookup pr t (ext w)")
  show ?thesis
  proof (cases r)
    case (Inl e)
    then show ?thesis by (simp add: sec_try_def l)
  next
    case (Inr oc)
    show ?thesis
    proof (cases oc)
      case None
      then show ?thesis by (simp add: sec_try_def l Inr)
    next
      case (Some edgar)
      obtain r1 x1 where f: "edgar_filings pr edgar (map fst FILING_TYPES) lb x = (r1, x1)"
        by (cases "edgar_filings pr edgar (map fst FILING_TYPES) lb x")
      show ?thesis
      proof (cases r1)
        case (Inl e)
        then show ?thesis by (simp add: sec_try_def l Inr Some f)
      next
        case fl: (Inr filings)
        obtain r2 w1 where pf: "process_filings filings (w\<lparr>ext := x1\<rparr>) = (r2, w1)"
          by (cases "process_filings filings (w\<lparr>ext := x1\<rparr>)")
        have e1: "retry_events w1 = retry_events w"
          using retry_events_process_filings[of filings "w\<lparr>ext := x1\<rparr>"] by (simp add: pf)
        show ?thesis
          unfolding sec_try_def l prod.case Inr sum.case Some option.case f fl pf
          by (simp add: e1 retry_events_store_detailed_filings split: sum.splits prod.splits)
      qed
    qed
  qed
qed

lemma keeps_retry_events_sec: "keeps_retry_events (sec_enrich pr lb company)"
  unfolding keeps_retry_events_def
proof
  fix w
  show "retry_events (snd (sec_enrich pr lb company w)) = retry_events w"
  proof (cases "validate_input company")
    case False
    then show ?thesis by (simp add: sec_enrich_def)
  next
    case True
    show ?thesis
    proof (cases "dict_item company ''Ticker''")
      case (Inl e)
      then show ?thesis using True by (simp add: sec_enrich_def)
    next
      case (Inr raw)
      show ?thesis
      proof (cases "split_first raw")
        case sl: (Inl e)
        then show ?thesis using True by (simp add: sec_enrich_def Inr)
      next
        case sr: (Inr t)
        let ?w0 = "log INFO (SECFetching t raw) w"
        obtain r w1 where st: "sec_try pr lb t ?w0 = (r, w1)" by (cases "sec_try pr lb t ?w0")
        have "retry_events w1 = retry_events w"
          using retry_events_sec_try[of pr lb t ?w0] by (simp add: st)
        then show ?thesis
          using True by (cases r) (simp_all add: sec_enrich_def Inr sr st)
      qed
    qed
  qed
qed


subsection \<open>The database gateway\<close>

lemma dict_item_contains:
  "dict_contains k d \<Longrightarrow> dict_item d k = Inr (dict_get d k)"
  by (auto simp: dict_contains_def dict_item_def dict_get_def)

lemma batch_update_companies_append:
  "batch_update_companies db (xs @ ys) w =
     (case batch_update_companies db xs w of
        (Inl e, w1) \<Rightarrow> (Inl e, w1)
      | (Inr u, w1) \<Rightarrow> batch_update_companies db ys w1)"
  by (induction xs arbitrary: w) (auto split: prod.splits sum.splits)

lemma batch_update_companies_skips:
  "batch_update_companies db (filter (dict_contains ''Ticker'') updates) w =
     batch_update_companies db updates w"
  by (induction updates arbitrary: w) (auto split: prod.splits sum.splits)

lemma batch_update_companies_all_succeed:
  "(\<And>t u x. fst (update_row db t u x) = Inr ()) \<Longrightarrow> fst (batch_update_companies db updates w) = Inr ()"
proof (induction updates arbitrary: w)
  case Nil
  show ?case by simp
next
  case (Cons u us)
  show ?case
  proof (cases "dict_contains ''Ticker'' u")
    case False
    then show ?thesis using Cons by simp
  next
    case True
    obtain x where "update_row db (dict_get u ''Ticker'') u (ext w) = (Inr (), x)"
      using Cons.prems[of "dict_get u ''Ticker''" u "ext w"]
      by (cases "update_row db (dict_get u ''Ticker'') u (ext w)") auto
    then show ?thesis
      using True Cons.IH Cons.prems
      by (simp add: dict_item_contains update_company_def)
  qed
qed

subsection \<open>Dictionaries\<close>

lemma map_of_dict_update:
  "map_of (dict_update d r) = map_of d ++ map_of (rev r)"
  unfolding dict_update_def
proof (induction r arbitrary: d)
  case Nil
  show ?case by simp
next
  case (Cons kv r)
  obtain k v where kv: "kv = (k, v)" by (cases kv)
  show ?case
    by (rule ext) (simp add: kv Cons.IH AList.update_conv' map_add_def split: option.splits)
qed

lemma keys_dict_update:
  "fst ` set (dict_update d r) = fst ` set d \<union> fst ` set r"
  unfolding dict_update_def
proof (induction r arbitrary: d)
  case Nil
  show ?case by simp
next
  case (Cons kv r)
  obtain k v where kv: "kv = (k, v)" by (cases kv)
  show ?case by (auto simp: kv Cons.IH AList.dom_update)
qed

lemma map_of_rev_distinct:
  "distinct (map fst r) \<Longrightarrow> map_of (rev r) = map_of r"
  by (rule map_of_inject_set[THEN iffD2]) (simp_all add: rev_map[symmetric])

lemma foldl_dict_update_lookup_none:
  "\<forall>r \<in> set rs. X \<notin> fst ` set r \<Longrightarrow> map_of (foldl dict_update d rs) X = map_of d X"
proof (induction rs arbitrary: d)
  case Nil
  show ?case by simp
next
  case (Cons r rs)
  have "map_of (rev r) X = None"
    using Cons.prems by (simp add: map_of_eq_None_iff)
  then show ?case using Cons by (simp add: map_of_dict_update map_add_def)
qed

lemma keys_foldl_dict_update:
  "fst ` set (foldl dict_update d rs) = fst ` set d \<union> (\<Union>r \<in> set rs. fst ` set r)"
  by (induction rs arbitrary: d) (auto simp: keys_dict_update)

subsection \<open>The loop over the enrichers\<close>

lemma jlog_sel [simp]:
  "results_buffer (jlog l m p) = results_buffer p"
  "processed_count (jlog l m p) = processed_count p"
  "journal (jlog l m p) = journal p @ [(l, m)]"
  by (simp_all add: jlog_def)

lemma failure_warnings_Cons:
  "failure_warnings (e # es) c (r # rs) =
     (if isl r then [(WARNING, EnricherFailed (name e) (dict_get c ''Ticker'') (projl r))] else [])
     @ failure_warnings es c rs"
  by (simp add: failure_warnings_def)

lemma enrich_loop_decomp:
  "enrich_loop es c d (p, w) =
     (foldl dict_update d (map projr (filter (\<lambda>r. \<not> isl r) (enrich_outcomes es c w))),
      p\<lparr>journal := journal p @ failure_warnings es c (enrich_outcomes es c w)\<rparr>,
      enrich_world es c w)"
proof (induction es arbitrary: d p w)
  case Nil
  show ?case by (simp add: failure_warnings_def)
next
  case (Cons e es)
  obtain r w1 where ew: "enrich e c w = (r, w1)" by (cases "enrich e c w")
  show ?case
    by (cases r) (simp_all add: ew Cons.IH failure_warnings_Cons jlog_def)
qed

lemma enrich_company_decomp:
  "enrich_company es c (p, w) =
     (merged (enrich_outcomes es c w),
      p\<lparr>journal := journal p @ failure_warnings es c (enrich_outcomes es c w)\<rparr>,
      enrich_world es c w)"
  by (simp add: enrich_company_def enrich_loop_decomp merged_def)

lemma length_enrich_outcomes [simp]: "length (enrich_outcomes es c w) = length es"
  by (induction es arbitrary: w) (auto split: prod.splits)

lemma failure_warning_member:
  "i < length es \<Longrightarrow> length outs = length es \<Longrightarrow> outs ! i = Inl e \<Longrightarrow>
   (WARNING, EnricherFailed (name (es ! i)) (dict_get c ''Ticker'') e) \<in> set (failure_warnings es c outs)"
proof -
  assume a: "i < length es" "length outs = length es" "outs ! i = Inl e"
  then have "(es ! i, Inl e) \<in> set (zip es outs)"
    by (metis in_set_zip fst_conv snd_conv)
  then show ?thesis
    unfolding failure_warnings_def by (force simp: image_iff)
qed

lemma merged_lookup_last:
  assumes j: "j < length outs" and rj: "outs ! j = Inr rj"
    and dj: "distinct (map fst rj)" and vj: "map_of rj X = Some vj"
    and later: "\<forall>k. j < k \<and> k < length outs \<longrightarrow> (\<forall>r. outs ! k = Inr r \<longrightarrow> X \<notin> fst ` set r)"
  shows "map_of (merged outs) X = Some vj"
proof -
  let ?ok = "\<lambda>r::exn + dict. \<not> isl r"
  have split: "outs = take j outs @ outs ! j # drop (Suc j) outs"
    using j by (simp add: id_take_nth_drop)
  have "map projr (filter ?ok outs) =
          map projr (filter ?ok (take j outs)) @ rj # map projr (filter ?ok (drop (Suc j) outs))"
    by (subst split) (simp add: rj)
  then have m: "merged outs =
      foldl dict_update (dict_update (foldl dict_update [] (map projr (filter ?ok (take j outs)))) rj)
        (map projr (filter ?ok (drop (Suc j) outs)))"
    by (simp add: merged_def)
  have none: "\<forall>r \<in> set (map projr (filter ?ok (drop (Suc j) outs))). X \<notin> fst ` set r"
  proof
    fix r assume "r \<in> set (map projr (filter ?ok (drop (Suc j) outs)))"
    then obtain o' where o': "o' \<in> set (drop (Suc j) outs)" "\<not> isl o'" "r = projr o'" by auto
    then obtain i where i: "i < length (drop (Suc j) outs)" "drop (Suc j) outs ! i = o'"
      by (auto simp: in_set_conv_nth)
    then have "outs ! (Suc j + i) = o'" "Suc j + i < length outs" by auto
    moreover have "o' = Inr r" using o' by (cases o') auto
    ultimately show "X \<notin> fst ` set r" using later by (metis less_add_Suc1 add_Suc)
  qed
  show ?thesis
    unfolding m
    by (simp add: foldl_dict_update_lookup_none[OF none] map_of_dict_update map_of_rev_distinct[OF dj] vj)
qed

subsection \<open>One iteration of the run loop\<close>

lemma save_buffer_fields:
  "processed_count (fst (save_buffer db (p, w))) = processed_count p"
  by (simp add: save_buffer_def Let_def split: prod.splits sum.splits)

lemma buffer_result_fields:
  "processed_count (fst (buffer_result db es c t (p, w))) = processed_count p"
  by (simp add: buffer_result_def enrich_company_decomp split: prod.splits)

lemma buffer_result_buffer:
  "results_buffer (fst (buffer_result db es c t (p, w))) =
     results_buffer p @
       (if merged (enrich_outcomes es c w) \<noteq> []
        then [AList.update ''last_enriched'' (PStr (fst (now_iso db (ext (enrich_world es c w)))))
                (AList.update ''Ticker'' t (merged (enrich_outcomes es c w)))]
        else [])"
  by (simp add: buffer_result_def enrich_company_decomp split: prod.splits)

lemma save_periodically_count:
  "processed_count (fst (save_periodically db cfg s)) = processed_count (fst s)"
  by (cases s) (simp add: save_periodically_def save_buffer_fields)

lemma try_body_never_raises:
  "fst (try_body db es cfg c t s) = Inr ()"
  by (simp add: try_body_def split: prod.splits)

lemma try_body_count:
  "processed_count (fst (snd (try_body db es cfg c t (p, w)))) = Suc (processed_count p)"
proof -
  obtain p1 w1 where b: "buffer_result db es c t (p, w) = (p1, w1)"
    by (cases "buffer_result db es c t (p, w)")
  have "processed_count p1 = processed_count p"
    using buffer_result_fields[of db es c t p w] by (simp add: b)
  moreover obtain p2 w2 where s: "save_periodically db cfg (p1, w1) = (p2, w2)"
    by (cases "save_periodically db cfg (p1, w1)")
  moreover have "processed_count p2 = processed_count p1"
    using save_periodically_count[of db cfg "(p1, w1)"] by (simp add: s)
  ultimately show ?thesis by (simp add: try_body_def b)
qed

lemma process_company_count:
  "processed_count (fst (process_company db es cfg tot idx c (p, w))) = Suc (processed_count p)"
proof -
  let ?t = "dict_get_default c ''Ticker'' (PStr ''Unknown'')"
  let ?p0 = "jlog INFO (Processing ?t (idx + 1) tot) p"
  obtain r p1 w1 where tb: "try_body db es cfg c ?t (?p0, w) = (r, p1, w1)"
    by (cases "try_body db es cfg c ?t (?p0, w)")
  have "r = Inr ()" using try_body_never_raises[of db es cfg c ?t "(?p0, w)"] unfolding tb by simp
  moreover have "processed_count p1 = Suc (processed_count p)"
    using try_body_count[of db es cfg c ?t ?p0 w] unfolding tb by simp
  ultimately show ?thesis unfolding process_company_def Let_def prod.case tb by simp
qed

lemma run_loop_count:
  "processed_count (fst (run_loop db es cfg tot idx cs s)) = processed_count (fst s) + length cs"
proof (induction cs arbitrary: idx s)
  case Nil
  show ?case by simp
next
  case (Cons c cs)
  obtain p w where s: "s = (p, w)" by (cases s)
  show ?case by (simp add: Cons.IH s process_company_count)
qed

subsection \<open>Merge order and failure containment\<close>

text \<open>
  C3. When two enrichers of the enabled order both return a value for the field \<open>X\<close>, the
  aggregate for the company holds the value of the later one: the value of the enricher
  at position \<open>j\<close> wins over the one at \<open>i < j\<close>, \<open>j\<close> being the last enricher that
  returns \<open>X\<close> (last writer wins). The result of enricher \<open>j\<close> is a dictionary, so its
  keys are distinct.
\<close>

theorem later_enricher_wins:
  assumes "i < j" and "j < length es"
    and "enrich_outcomes es c w ! i = Inr ri" and "map_of ri X = Some vi"
    and "enrich_outcomes es c w ! j = Inr rj" and "map_of rj X = Some vj"
    and "distinct (map fst rj)"
    and "\<forall>k. j < k \<and> k < length es \<longrightarrow> (\<forall>r. enrich_outcomes es c w ! k = Inr r \<longrightarrow> X \<notin> fst ` set r)"
  shows "map_of (fst (enrich_company es c (p, w))) X = Some vj"
  using assms by (simp add: enrich_company_decomp merged_lookup_last)

theorem later_enricher_wins_witness:
  "map_of (fst (enrich_company
       [const_enricher ''Yahoo'' [(''sector'', PStr ''Tech'')],
        const_enricher ''BICS'' [(''sector'', PStr ''IT'')]]
       AAPL (init_pipeline, world0 []))) ''sector'' = Some (PStr ''IT'')"
proof -
  let ?es = "[const_enricher ''Yahoo'' [(''sector'', PStr ''Tech'')],
              const_enricher ''BICS'' [(''sector'', PStr ''IT'')]] :: store enricher list"
  have outs: "enrich_outcomes ?es AAPL (world0 []) = [Inr [(''sector'', PStr ''Tech'')], Inr [(''sector'', PStr ''IT'')]]"
    by (simp add: const_enricher_def)
  have later: "\<forall>k. 1 < k \<and> k < length ?es \<longrightarrow>
      (\<forall>r. enrich_outcomes ?es AAPL (world0 []) ! k = Inr r \<longrightarrow> ''sector'' \<notin> fst ` set r)"
    by auto
  show ?thesis
    by (rule later_enricher_wins[where i=0 and j=1 and ri="[(''sector'', PStr ''Tech'')]"
          and rj="[(''sector'', PStr ''IT'')]" and vi="PStr ''Tech''", OF _ _ _ _ _ _ _ later])
       (simp_all add: outs del: enrich_outcomes.simps)
qed



subsection \<open>The run summary\<close>

lemma run_summary:
  assumes f: "fst (fetch_companies db limit (tick db w)) = Inr companies"
  shows "case run db es cfg limit (init_pipeline, w) of
           (r, p', w') \<Rightarrow>
             r = Inr () \<and> processed_count p' = length companies \<and>
             last (journal p') = (INFO, PipelineCompleted (length companies) (length companies))"
proof -
  from f obtain w1 where fw: "fetch_companies db limit (tick db w) = (Inr companies, w1)"
    by (cases "fetch_companies db limit (tick db w)") auto
  let ?p1 = "jlog INFO (TotalCompanies (length companies)) (jlog INFO StartingPipeline init_pipeline)"
  obtain p2 w2 where rl: "run_loop db es cfg (length companies) 0 companies (?p1, w1) = (p2, w2)"
    by (cases "run_loop db es cfg (length companies) 0 companies (?p1, w1)")
  have c2: "processed_count p2 = length companies"
    using run_loop_count[of db es cfg "length companies" 0 companies "(?p1, w1)"]
    unfolding rl by (simp add: init_pipeline_def)
  obtain p3 w3 where sb: "(if results_buffer p2 \<noteq> [] then save_buffer db (p2, w2) else (p2, w2)) = (p3, w3)"
    by (cases "if results_buffer p2 \<noteq> [] then save_buffer db (p2, w2) else (p2, w2)")
  have c3: "processed_count p3 = length companies"
    using sb c2 save_buffer_fields[of db p2 w2] by (auto split: if_splits)
  show ?thesis
    unfolding run_def prod.case fw sum.case Let_def rl sb
    by (simp add: c3)
qed

text \<open>
  C10. Every iteration of the loop adds one to the processed counter, for any enrichers
  and any datastore: nothing of the enrichment or of the periodic save escapes the loop
  body. So a run whose fetch returns the companies reports all of them as processed, even
  when every enricher raised or returned nothing.
\<close>

theorem every_company_counts_as_processed:
  "processed_count (fst (process_company db es cfg tot idx c (p, w))) = processed_count p + 1
   \<and> processed_count (fst (run_loop db es cfg tot idx cs (p, w))) = processed_count p + length cs
   \<and> (fst (fetch_companies db limit (tick db w)) = Inr companies \<longrightarrow>
        (case run db es cfg limit (init_pipeline, w) of
           (r, p', w') \<Rightarrow>
             r = Inr () \<and> processed_count p' = length companies \<and>
             last (journal p') = (INFO, PipelineCompleted (length companies) (length companies))))"
  using run_summary[of db limit w companies es cfg]
  by (simp add: process_company_count run_loop_count)

theorem every_company_counts_as_processed_witness:
  "(case run (mock_db (\<lambda>n. True)) [raising_enricher ''Bad'', const_enricher ''Empty'' []] default_config None
          (init_pipeline, world0 [AAPL, MSFT]) of
      (r, p', w') \<Rightarrow>
        r = Inr () \<and> processed_count p' = 2 \<and> last (journal p') = (INFO, PipelineCompleted 2 2))"
proof -
  have f: "fst (fetch_companies (mock_db (\<lambda>n. True)) None (tick (mock_db (\<lambda>n. True)) (world0 [AAPL, MSFT])))
             = Inr [AAPL, MSFT]"
    by (simp add: fetch_companies_def limit_clause_def tick_def mock_db_def world0_def)
  note T = every_company_counts_as_processed[where db="mock_db (\<lambda>n. True)" and limit=None
        and w="world0 [AAPL, MSFT]" and companies="[AAPL, MSFT]"
        and es="[raising_enricher ''Bad'', const_enricher ''Empty'' []]" and cfg=default_config,
        THEN conjunct2, THEN conjunct2, rule_format, OF f]
  have l: "length [AAPL, MSFT] = 2" by simp
  from T show ?thesis unfolding l .
qed

subsection \<open>The batch update\<close>

text \<open>
  C7 (as the code has it). \<open>batch_update_companies\<close> sends the updates that carry the key
  \<open>Ticker\<close> in order and stops at the first one that fails: the failure is raised to the
  caller in the world that update left, and no update after it is attempted. Updates
  without the key are skipped silently.
\<close>

theorem batch_update_companies_stops_at_first_failure:
  "batch_update_companies db updates w =
     batch_update_companies db (filter (dict_contains ''Ticker'') updates) w
   \<and> (batch_update_companies db before w = (Inr (), w1) \<and> dict_contains ''Ticker'' u \<and>
        update_company db (dict_get u ''Ticker'') u w1 = (Inl e, w2) \<longrightarrow>
          batch_update_companies db (before @ u # rest) w = (Inl e, w2))"
  by (simp add: batch_update_companies_skips batch_update_companies_append dict_item_contains)

theorem batch_update_companies_stops_at_first_failure_witness:
  "batch_update_companies (mock_db (\<lambda>n. n = 1))
     ([[(''Ticker'', PStr ''IBM''), (''x'', PInt 0)]] @ [(''Ticker'', PStr ''AAPL''), (''x'', PInt 1)] #
        [[(''Ticker'', PStr ''MSFT''), (''x'', PInt 2)]])
     (world0 []) =
   (Inl (External ''write failed''),
    \<lparr>logged = [(DEBUG, UpdatedCompany (PStr ''IBM'') 2),
               (ERROR, FailedToUpdate (PStr ''AAPL'') (External ''write failed''))],
     slept = [],
     ext = \<lparr>table = [], db_calls = 2, written = [(PStr ''IBM'', [(''Ticker'', PStr ''IBM''), (''x'', PInt 0)])]\<rparr>\<rparr>)"
proof -
  let ?db = "mock_db (\<lambda>n. n = 1)"
  let ?w1 = "\<lparr>logged = [(DEBUG, UpdatedCompany (PStr ''IBM'') 2)], slept = [],
     ext = \<lparr>table = [], db_calls = 1, written = [(PStr ''IBM'', [(''Ticker'', PStr ''IBM''), (''x'', PInt 0)])]\<rparr>\<rparr>"
  let ?u = "[(''Ticker'', PStr ''AAPL''), (''x'', PInt 1)]"
  have a: "batch_update_companies ?db [[(''Ticker'', PStr ''IBM''), (''x'', PInt 0)]] (world0 []) = (Inr (), ?w1)"
    by (simp add: mock_db_def world0_def update_company_def dict_contains_def dict_item_def log_def)
  have b: "dict_contains ''Ticker'' ?u" by (simp add: dict_contains_def)
  have c: "update_company ?db (dict_get ?u ''Ticker'') ?u ?w1 =
      (Inl (External ''write failed''),
       \<lparr>logged = [(DEBUG, UpdatedCompany (PStr ''IBM'') 2),
               (ERROR, FailedToUpdate (PStr ''AAPL'') (External ''write failed''))],
        slept = [],
        ext = \<lparr>table = [], db_calls = 2, written = [(PStr ''IBM'', [(''Ticker'', PStr ''IBM''), (''x'', PInt 0)])]\<rparr>\<rparr>)"
    by (simp add: mock_db_def update_company_def dict_get_def log_def)
  from a b c show ?thesis
    by (rule batch_update_companies_stops_at_first_failure[THEN conjunct2, rule_format, OF conjI, OF _ conjI])
qed

text \<open>
  C7 as the specification states it fails: with two updates of which the first is
  rejected, the datastore receives one call and the second update is never attempted.
\<close>

theorem batch_update_companies_best_effort_counterexample:
  "batch_update_companies (mock_db (\<lambda>n. n = 0))
     [[(''Ticker'', PStr ''AAPL''), (''x'', PInt 1)], [(''Ticker'', PStr ''MSFT''), (''x'', PInt 2)]]
     (world0 []) =
   (Inl (External ''write failed''),
    \<lparr>logged = [(ERROR, FailedToUpdate (PStr ''AAPL'') (External ''write failed''))], slept = [],
     ext = \<lparr>table = [], db_calls = 1, written = []\<rparr>\<rparr>)"
  by (simp add: mock_db_def world0_def update_company_def dict_contains_def dict_item_def log_def)

subsection \<open>The limit of the fetch\<close>

text \<open>
  C9. A limit of 0 is the same as no limit: \<open>fetch_companies\<close> and \<open>run\<close> behave as with
  \<open>None\<close>, for any datastore. On a datastore whose \<open>limit\<close> clause returns the first rows,
  the limit 0 therefore fetches every row, where a \<open>limit 0\<close> clause would fetch none.
\<close>

theorem limit_zero_is_no_limit:
  "fetch_companies db (Some 0) w = fetch_companies db None w
   \<and> run db es cfg (Some 0) s = run db es cfg None s
   \<and> fst (fetch_companies (mock_db fails) (Some 0) (world0 rows)) = Inr rows
   \<and> fst (select_companies (mock_db fails) (Some 0) (ext (world0 rows))) = Inr []
   \<and> (case run (mock_db fails) es' cfg (Some 0) (init_pipeline, world0 rows) of
        (r, p', w') \<Rightarrow> r = Inr () \<and> processed_count p' = length rows)"
proof -
  have f: "fst (fetch_companies (mock_db fails) (Some 0) (tick (mock_db fails) (world0 rows))) = Inr rows"
    by (simp add: fetch_companies_def limit_clause_def mock_db_def world0_def tick_def)
  have "case run (mock_db fails) es' cfg (Some 0) (init_pipeline, world0 rows) of
        (r, p', w') \<Rightarrow> r = Inr () \<and> processed_count p' = length rows"
    using run_summary[OF f, of es' cfg] by (simp split: prod.splits)
  then show ?thesis
    by (simp add: fetch_companies_def limit_clause_def run_def mock_db_def world0_def)
qed

subsection \<open>Flushing the buffer\<close>

lemma save_buffer_failure:
  assumes "results_buffer p \<noteq> []"
    and "fst (batch_update_companies db (results_buffer p) w) = Inl e"
  shows "save_buffer db (p, w) =
           (jlog ERROR (FailedToSaveBuffer e) (jlog INFO (SavingRecords (length (results_buffer p))) p),
            snd (batch_update_companies db (results_buffer p) w))"
proof -
  obtain w1 where "batch_update_companies db (results_buffer p) w = (Inl e, w1)"
    using assms(2) by (cases "batch_update_companies db (results_buffer p) w") auto
  then show ?thesis using assms(1) by (simp add: save_buffer_def Let_def)
qed

lemma save_buffer_success:
  assumes "results_buffer p \<noteq> []"
    and "fst (batch_update_companies db (results_buffer p) w) = Inr ()"
  shows "save_buffer db (p, w) =
           ((jlog INFO (SavingRecords (length (results_buffer p))) p)\<lparr>results_buffer := []\<rparr>,
            snd (batch_update_companies db (results_buffer p) w))"
proof -
  obtain w1 where "batch_update_companies db (results_buffer p) w = (Inr (), w1)"
    using assms(2) by (cases "batch_update_companies db (results_buffer p) w") auto
  then show ?thesis using assms(1) by (simp add: save_buffer_def Let_def)
qed

lemma save_buffer_world:
  "results_buffer p \<noteq> [] \<Longrightarrow>
   snd (save_buffer db (p, w)) = snd (batch_update_companies db (results_buffer p) w)"
  by (simp add: save_buffer_def Let_def split: prod.splits sum.splits)

text \<open>
  C4 (as the code has it). When the batch update raises, \<open>_save_buffer\<close> logs the error
  and leaves the buffer as it was: the entries stay queued, and the next flush, in
  whatever state the world is then, submits the same entries again.
\<close>

theorem failed_flush_keeps_the_buffer:
  "results_buffer p \<noteq> [] \<and> fst (batch_update_companies db (results_buffer p) w) = Inl e \<longrightarrow>
     (case save_buffer db (p, w) of
        (p', w') \<Rightarrow>
          results_buffer p' = results_buffer p \<and>
          processed_count p' = processed_count p \<and>
          journal p' = journal p @ [(INFO, SavingRecords (length (results_buffer p))),
                                    (ERROR, FailedToSaveBuffer e)] \<and>
          w' = snd (batch_update_companies db (results_buffer p) w) \<and>
          (\<forall>w''. snd (save_buffer db (p', w'')) = snd (batch_update_companies db (results_buffer p) w'')))"
proof
  assume h: "results_buffer p \<noteq> [] \<and> fst (batch_update_companies db (results_buffer p) w) = Inl e"
  let ?p' = "jlog ERROR (FailedToSaveBuffer e) (jlog INFO (SavingRecords (length (results_buffer p))) p)"
  have sb: "save_buffer db (p, w) = (?p', snd (batch_update_companies db (results_buffer p) w))"
    using h by (simp add: save_buffer_failure)
  have again: "snd (save_buffer db (?p', w'')) = snd (batch_update_companies db (results_buffer p) w'')" for w''
    using h save_buffer_world[of ?p' db w''] by simp
  show "case save_buffer db (p, w) of
        (p', w') \<Rightarrow>
          results_buffer p' = results_buffer p \<and>
          processed_count p' = processed_count p \<and>
          journal p' = journal p @ [(INFO, SavingRecords (length (results_buffer p))),
                                    (ERROR, FailedToSaveBuffer e)] \<and>
          w' = snd (batch_update_companies db (results_buffer p) w) \<and>
          (\<forall>w''. snd (save_buffer db (p', w'')) = snd (batch_update_companies db (results_buffer p) w''))"
    unfolding sb prod.case using again by simp
qed

theorem failed_flush_keeps_the_buffer_witness:
  "(case save_buffer (mock_db (\<lambda>n. n = 0))
          (init_pipeline\<lparr>results_buffer := [[(''x'', PInt 1), (''Ticker'', PStr ''AAPL'')]]\<rparr>, world0 []) of
      (p', w') \<Rightarrow>
        results_buffer p' = [[(''x'', PInt 1), (''Ticker'', PStr ''AAPL'')]] \<and>
        journal p' = [(INFO, SavingRecords 1), (ERROR, FailedToSaveBuffer (External ''write failed''))])"
proof -
  let ?p = "init_pipeline\<lparr>results_buffer := [[(''x'', PInt 1), (''Ticker'', PStr ''AAPL'')]]\<rparr>"
  have h: "results_buffer ?p \<noteq> [] \<and>
      fst (batch_update_companies (mock_db (\<lambda>n. n = 0)) (results_buffer ?p) (world0 [])) =
        Inl (External ''write failed'')"
    by code_simp
  have j: "journal ?p = []" "results_buffer ?p = [[(''x'', PInt 1), (''Ticker'', PStr ''AAPL'')]]"
    by (simp_all add: init_pipeline_def)
  from failed_flush_keeps_the_buffer[where p="?p" and db="mock_db (\<lambda>n. n = 0)" and w="world0 []",
      rule_format, OF h]
  show ?thesis
    unfolding j by (simp split: prod.splits)
qed

text \<open>
  C4 as the specification states it fails. With a flush after every result and a
  datastore that rejects the first update only, the entry for AAPL is in the buffer when
  the first flush fails; it is not dropped: the second flush submits it again, and the
  datastore ends up holding it.
\<close>

theorem failed_flush_drops_entries_counterexample:
  "(case run (mock_db (\<lambda>n. n = 0)) [const_enricher ''E'' [(''x'', PInt 1)]]
          (default_config\<lparr>save_frequency := 1\<rparr>) None (init_pipeline, world0 [AAPL, MSFT]) of
      (r, p', w') \<Rightarrow>
        r = Inr () \<and>
        journal p' =
          [(INFO, StartingPipeline), (INFO, TotalCompanies 2),
           (INFO, Processing (PStr ''AAPL'') 1 2), (INFO, SavingRecords 1),
           (ERROR, FailedToSaveBuffer (External ''write failed'')),
           (INFO, Processing (PStr ''MSFT'') 2 2), (INFO, SavingRecords 2),
           (INFO, PipelineCompleted 2 2)] \<and>
        written (ext w') =
          [(PStr ''AAPL'', [(''x'', PInt 1), (''Ticker'', PStr ''AAPL''),
                            (''last_enriched'', PStr ''2024-01-01T00:00:00'')]),
           (PStr ''MSFT'', [(''x'', PInt 1), (''Ticker'', PStr ''MSFT''),
                            (''last_enriched'', PStr ''2024-01-01T00:00:00'')])])"
  by code_simp

lemma flushes_simps [simp]:
  "flushes (jlog l m p) = flushes p + (if is_flush (l, m) then 1 else 0)"
  "flushes (p\<lparr>results_buffer := b\<rparr>) = flushes p"
  "flushes (p\<lparr>processed_count := n\<rparr>) = flushes p"
  by (simp_all add: flushes_def jlog_def)

lemma filter_is_flush_failure_warnings [simp]:
  "filter is_flush (failure_warnings es c outs) = []"
  by (auto simp: failure_warnings_def filter_empty_conv)

lemma buffer_result_pipeline:
  "fst (buffer_result db es c t (p, w)) =
     p\<lparr>journal := journal p @ failure_warnings es c (enrich_outcomes es c w),
       results_buffer := results_buffer p @
         (if merged (enrich_outcomes es c w) \<noteq> []
          then [AList.update ''last_enriched'' (PStr (fst (now_iso db (ext (enrich_world es c w)))))
                  (AList.update ''Ticker'' t (merged (enrich_outcomes es c w)))]
          else [])\<rparr>"
  by (simp add: buffer_result_def enrich_company_decomp split: prod.splits)

lemma buffer_result_flushes:
  "flushes (fst (buffer_result db es c t (p, w))) = flushes p"
  by (simp add: buffer_result_pipeline flushes_def)

lemma buffer_result_length:
  "length (results_buffer (fst (buffer_result db es c t (p, w)))) =
     length (results_buffer p) + (if merged (enrich_outcomes es c w) \<noteq> [] then 1 else 0)"
  by (simp add: buffer_result_pipeline)

lemma save_periodically_when_updates_succeed:
  assumes ok: "\<And>t u x. fst (update_row db t u x) = Inr ()"
    and F: "1 \<le> save_frequency cfg" and b: "int (length (results_buffer p)) \<le> save_frequency cfg"
  shows "length (results_buffer (fst (save_periodically db cfg (p, w)))) =
           length (results_buffer p) mod nat (save_frequency cfg)
         \<and> flushes (fst (save_periodically db cfg (p, w))) =
           flushes p + length (results_buffer p) div nat (save_frequency cfg)"
proof (cases "int (length (results_buffer p)) \<ge> save_frequency cfg")
  case True
  then have eq: "length (results_buffer p) = nat (save_frequency cfg)" using b by simp
  then have ne: "results_buffer p \<noteq> []" using F by auto
  have "fst (batch_update_companies db (results_buffer p) w) = Inr ()"
    using ok by (rule batch_update_companies_all_succeed)
  then show ?thesis
    using True ne F by (simp add: save_periodically_def save_buffer_success eq)
next
  case False
  then have "length (results_buffer p) < nat (save_frequency cfg)" by simp
  then show ?thesis using False by (simp add: save_periodically_def)
qed

lemma process_company_when_updates_succeed:
  assumes ok: "\<And>t u x. fst (update_row db t u x) = Inr ()"
    and F: "1 \<le> save_frequency cfg" and b: "int (length (results_buffer p)) < save_frequency cfg"
  shows "length (results_buffer (fst (process_company db es cfg tot idx c (p, w)))) =
           (length (results_buffer p) + (if merged (enrich_outcomes es c w) \<noteq> [] then 1 else 0))
             mod nat (save_frequency cfg)
         \<and> flushes (fst (process_company db es cfg tot idx c (p, w))) =
           flushes p + (length (results_buffer p) + (if merged (enrich_outcomes es c w) \<noteq> [] then 1 else 0))
             div nat (save_frequency cfg)"
proof -
  let ?t = "dict_get_default c ''Ticker'' (PStr ''Unknown'')"
  let ?p0 = "jlog INFO (Processing ?t (idx + 1) tot) p"
  obtain p1 w1 where br: "buffer_result db es c ?t (?p0, w) = (p1, w1)"
    by (cases "buffer_result db es c ?t (?p0, w)")
  have l1: "length (results_buffer p1) =
      length (results_buffer p) + (if merged (enrich_outcomes es c w) \<noteq> [] then 1 else 0)"
    using buffer_result_length[of db es c ?t ?p0 w] unfolding br by simp
  have f1: "flushes p1 = flushes p"
    using buffer_result_flushes[of db es c ?t ?p0 w] unfolding br by simp
  have b1: "int (length (results_buffer p1)) \<le> save_frequency cfg"
    using b l1 by simp
  obtain p2 w2 where sp: "save_periodically db cfg (p1, w1) = (p2, w2)"
    by (cases "save_periodically db cfg (p1, w1)")
  note S = save_periodically_when_updates_succeed[OF ok F b1, of w1, unfolded sp fst_conv]
  have pc: "process_company db es cfg tot idx c (p, w) = (p2\<lparr>processed_count := processed_count p2 + 1\<rparr>, w2)"
    unfolding process_company_def Let_def prod.case try_body_def br sp by simp
  show ?thesis
    unfolding pc fst_conv using S l1 f1 by simp
qed

lemma div_mod_step:
  fixes x n F :: nat
  assumes "0 < F"
  shows "(x mod F + n) mod F = (x + n) mod F"
    and "x div F + (x mod F + n) div F = (x + n) div F"
proof -
  show "(x mod F + n) mod F = (x + n) mod F" by (rule mod_add_left_eq)
  have "x + n = (x mod F + n) + (x div F) * F" by simp
  then have "(x + n) div F = ((x mod F + n) + (x div F) * F) div F" by simp
  also have "\<dots> = x div F + (x mod F + n) div F"
    using assms by (simp only: div_mult_self1[OF less_imp_neq[OF assms, symmetric]])
  finally show "x div F + (x mod F + n) div F = (x + n) div F" by simp
qed

lemma run_loop_when_updates_succeed:
  assumes ok: "\<And>t u x. fst (update_row db t u x) = Inr ()"
    and F: "1 \<le> save_frequency cfg"
  shows "int (length (results_buffer p)) < save_frequency cfg \<Longrightarrow>
         length (results_buffer (fst (run_loop db es cfg tot idx cs (p, w)))) =
           (length (results_buffer p) + appended db es cfg tot idx cs (p, w)) mod nat (save_frequency cfg)
         \<and> flushes (fst (run_loop db es cfg tot idx cs (p, w))) =
           flushes p + (length (results_buffer p) + appended db es cfg tot idx cs (p, w))
             div nat (save_frequency cfg)"
proof (induction cs arbitrary: idx p w)
  case Nil
  then show ?case by simp
next
  case (Cons c cs)
  define F' where "F' = nat (save_frequency cfg)"
  define a :: nat where "a = (if merged (enrich_outcomes es c w) \<noteq> [] then 1 else 0)"
  define x where "x = length (results_buffer p) + a"
  obtain p1 w1 where pc: "process_company db es cfg tot idx c (p, w) = (p1, w1)"
    by (cases "process_company db es cfg tot idx c (p, w)")
  have P: "length (results_buffer p1) = x mod F'" "flushes p1 = flushes p + x div F'"
    using process_company_when_updates_succeed[OF ok F Cons.prems, of es tot idx c w]
    unfolding pc fst_conv x_def a_def F'_def by blast+
  have Fpos: "0 < F'" using F by (simp add: F'_def)
  have "length (results_buffer p1) < F'" using P(1) Fpos by simp
  then have b1: "int (length (results_buffer p1)) < save_frequency cfg"
    unfolding F'_def by linarith
  define n where "n = appended db es cfg tot (idx + 1) cs (p1, w1)"
  have IH: "length (results_buffer (fst (run_loop db es cfg tot (idx + 1) cs (p1, w1)))) = (x mod F' + n) mod F'"
      "flushes (fst (run_loop db es cfg tot (idx + 1) cs (p1, w1))) = flushes p + x div F' + (x mod F' + n) div F'"
    using Cons.IH[OF b1, of "idx + 1" w1] unfolding P n_def F'_def by blast+
  have ap: "appended db es cfg tot idx (c # cs) (p, w) = a + n"
    unfolding appended.simps pc n_def a_def snd_conv by (rule refl)
  have rl: "run_loop db es cfg tot idx (c # cs) (p, w) = run_loop db es cfg tot (idx + 1) cs (p1, w1)"
    unfolding run_loop.simps pc by (rule refl)
  have e: "length (results_buffer p) + (a + n) = x + n" by (simp add: x_def)
  show ?case
    unfolding rl ap e IH F'_def[symmetric]
    using div_mod_step[OF Fpos, of x n] by simp
qed




subsection \<open>The enrichers\<close>

lemma retry_returns_at_once:
  "func w = (Inr v, w1) \<Longrightarrow> 0 \<le> R \<Longrightarrow> retry_on_failure R d n func w = (Inr v, w1)"
  unfolding retry_on_failure_def by (subst retry_loop.simps) simp

lemma retry_loop_result_from_body:
  "retry_loop R d n func a le w = (Inr v, w') \<Longrightarrow> \<exists>w0 w1. func w0 = (Inr v, w1)"
proof (induction R d n func a le w rule: retry_loop.induct)
  case (1 R d n func a le w)
  show ?case
  proof (cases "a < R + 1")
    case False
    then show ?thesis using "1.prems"
      by (subst (asm) retry_loop.simps) (simp split: option.splits)
  next
    case True
    obtain r w1 where fw: "func w = (r, w1)" by (cases "func w")
    show ?thesis
    proof (cases r)
      case (Inr v')
      then show ?thesis using "1.prems" True fw
        by (subst (asm) retry_loop.simps) auto
    next
      case (Inl e)
      show ?thesis
      proof (cases "a < R")
        case t: True
        show ?thesis
        proof (cases "sleep (d * of_int (a + 1)) (log WARNING (AttemptFailed (a + 1) n e) w1)")
          case l: (Inl e')
          then show ?thesis using "1.prems" True fw Inl t
            by (subst (asm) retry_loop.simps) simp
        next
          case r: (Inr w2)
          have "retry_loop R d n func (a + 1) (Some e) w2 = (Inr v, w')"
            using "1.prems" True fw Inl t r by (subst (asm) retry_loop.simps) simp
          then show ?thesis using "1.IH"(1)[OF True fw[symmetric] _ t r] Inl by blast
        qed
      next
        case f: False
        have "retry_loop R d n func (a + 1) (Some e)
                (log ERROR (AllAttemptsFailed (R + 1) n) w1) = (Inr v, w')"
          using "1.prems" True fw Inl f by (subst (asm) retry_loop.simps) simp
        then show ?thesis using "1.IH"(2)[OF True fw[symmetric] _ f] Inl by blast
      qed
    qed
  qed
qed

lemma no_nulls_clean_none [simp]: "no_nulls (clean_none d)"
  by (auto simp: no_nulls_def clean_none_def list_all_iff)

lemma no_nulls_Nil [simp]: "no_nulls []"
  by (simp add: no_nulls_def)

lemma yahoo_enrich_no_nulls: "yahoo_enrich pr c w = (Inr d, w') \<Longrightarrow> no_nulls d"
  by (auto simp: yahoo_enrich_def Let_def split: if_splits sum.splits prod.splits)

lemma isin_enrich_no_nulls: "isin_enrich c w = (Inr d, w') \<Longrightarrow> no_nulls d"
  by (auto simp: isin_enrich_def split: if_splits sum.splits)

lemma sector_enrich_no_nulls: "sector_enrich c w = (Inr d, w') \<Longrightarrow> no_nulls d"
  by (auto simp: sector_enrich_def split: if_splits sum.splits)

lemma llm_try_no_nulls: "llm_try pr cn t w = (Inr d, w') \<Longrightarrow> no_nulls d"
  by (auto simp: llm_try_def split: if_splits sum.splits prod.splits option.splits)

lemma llm_enrich_no_nulls: "llm_enrich pr c w = (Inr d, w') \<Longrightarrow> no_nulls d"
  by (auto simp: llm_enrich_def Let_def split: if_splits sum.splits prod.splits dest: llm_try_no_nulls)

lemma retry_no_nulls:
  assumes "\<And>w0 w1 d'. body w0 = (Inr d', w1) \<Longrightarrow> no_nulls d'"
    and "retry_on_failure R dl n body w = (Inr d, w')"
  shows "no_nulls d"
  using retry_loop_result_from_body[OF assms(2)[unfolded retry_on_failure_def]] assms(1) by blast

lemma other_enrichers_return_no_nulls:
  assumes "e \<in> {YahooFinanceEnricher pr, ISINEnricher, SectorClassificationEnricher,
                 LLMInvestorInformationEnricher pr}"
    and "enrich e company w = (Inr d, w')"
  shows "no_nulls d"
proof -
  consider "e = YahooFinanceEnricher pr" | "e = ISINEnricher" | "e = SectorClassificationEnricher"
    | "e = LLMInvestorInformationEnricher pr"
    using assms(1) by blast
  then show ?thesis
  proof cases
    case 1
    then have "retry_on_failure 2 1 ''enrich'' (yahoo_enrich pr company) w = (Inr d, w')"
      using assms(2) by (simp add: YahooFinanceEnricher_def)
    then show ?thesis by (rule retry_no_nulls[rotated]) (rule yahoo_enrich_no_nulls)
  next
    case 2
    then have "retry_on_failure 2 1 ''enrich'' (isin_enrich company) w = (Inr d, w')"
      using assms(2) by (simp add: ISINEnricher_def)
    then show ?thesis by (rule retry_no_nulls[rotated]) (rule isin_enrich_no_nulls)
  next
    case 3
    then have "retry_on_failure 2 1 ''enrich'' (sector_enrich company) w = (Inr d, w')"
      using assms(2) by (simp add: SectorClassificationEnricher_def)
    then show ?thesis by (rule retry_no_nulls[rotated]) (rule sector_enrich_no_nulls)
  next
    case 4
    then have "retry_on_failure 2 1 ''enrich'' (llm_enrich pr company) w = (Inr d, w')"
      using assms(2) by (simp add: LLMInvestorInformationEnricher_def)
    then show ?thesis by (rule retry_no_nulls[rotated]) (rule llm_enrich_no_nulls)
  qed
qed

text \<open>
  C8. For a company without the key \<open>Ticker\<close>, or whose ticker is empty (or any other
  false value), the \<open>enrich\<close> of each of the five enricher classes returns the empty
  mapping at its first attempt and leaves the world as it was: no provider is called,
  nothing is logged, nothing is raised.
\<close>

theorem ineligible_company_is_skipped:
  assumes "\<not> dict_contains ''Ticker'' company \<or> \<not> truthy (dict_get company ''Ticker'')"
  shows "\<forall>e \<in> set (enricher_classes pr lookback). enrich e company w = (Inr [], w)"
proof -
  have nv: "\<not> validate_input company" using assms by (auto simp: validate_input_def)
  have "yahoo_enrich pr company w = (Inr [], w)" "isin_enrich company w = (Inr [], w)"
    "sector_enrich company w = (Inr [], w)" "sec_enrich pr lookback company w = (Inr [], w)"
    "llm_enrich pr company w = (Inr [], w)"
    using nv by (simp_all add: yahoo_enrich_def isin_enrich_def sector_enrich_def sec_enrich_def llm_enrich_def)
  then show ?thesis
    by (simp add: enricher_classes_def YahooFinanceEnricher_def ISINEnricher_def
          SectorClassificationEnricher_def SECFilingsEnricher_def LLMInvestorInformationEnricher_def
          retry_returns_at_once)
qed

theorem ineligible_company_is_skipped_witness:
  "map (\<lambda>e. enrich e [(''Security'', PStr ''Apple Inc''), (''Ticker'', PStr [])] (world0 []))
       (enricher_classes (mock_providers []) ''2023-01-01'')
     = replicate 5 (Inr [], world0 [])
   \<and> map (\<lambda>e. enrich e [(''Security'', PStr ''Apple Inc'')] (world0 []))
       (enricher_classes (mock_providers []) ''2023-01-01'')
     = replicate 5 (Inr [], world0 [])"
proof -
  let ?c1 = "[(''Security'', PStr ''Apple Inc''), (''Ticker'', PStr [])]"
  let ?c2 = "[(''Security'', PStr ''Apple Inc'')]"
  have h1: "\<not> dict_contains ''Ticker'' ?c1 \<or> \<not> truthy (dict_get ?c1 ''Ticker'')"
    by (simp add: dict_get_def)
  have h2: "\<not> dict_contains ''Ticker'' ?c2 \<or> \<not> truthy (dict_get ?c2 ''Ticker'')"
    by (simp add: dict_contains_def)
  have l: "length (enricher_classes (mock_providers []) ''2023-01-01'' :: store enricher list) = 5"
    by (simp add: enricher_classes_def)
  have r: "map f xs = replicate 5 y" if "length xs = 5" "\<forall>x \<in> set xs. f x = y" for f :: "store enricher \<Rightarrow> (exn + dict) \<times> store world" and xs y
    using that by (metis length_map map_replicate_const map_eq_conv)
  show ?thesis
    using r[OF l ineligible_company_is_skipped[OF h1, of "mock_providers []" "''2023-01-01''" "world0 []"]]
          r[OF l ineligible_company_is_skipped[OF h2, of "mock_providers []" "''2023-01-01''" "world0 []"]]
    by (rule conjI)
qed

text \<open>
  C6. The SEC filings enricher returns its dictionary as built, with \<open>None\<close> for every
  form that has no filing in the window: for a company with one quarterly report the
  entries for the annual report, the current report and the proxy statement are \<open>None\<close>.
\<close>

theorem sec_enricher_returns_nulls:
  "enrich (SECFilingsEnricher (mock_providers [Inr quarterly_report]) ''2023-01-01'') AAPL (world0 []) =
     (Inr [(''sec_cik'', PInt 320193),
           (''sec_company_name'', PStr ''Apple Inc.''),
           (''sec_filings_count'', PInt 1),
           (''sec_latest_10k'', PNone),
           (''sec_latest_10q'', PStr ''https://www.sec.gov/d/10q''),
           (''sec_latest_8k'', PNone),
           (''sec_latest_proxy'', PNone),
           (''sec_filings_summary'', PDict [(''10-Q'', PDict [(''count'', PInt 1), (''latest_date'', PStr ''2024-05-03'')])]),
           (''sec_last_updated'', PStr ''2024-01-01T00:00:00'')],
      \<lparr>logged = [(INFO, SECFetching ''AAPL'' (PStr ''AAPL'')), (INFO, ConnectedToSupabase)],
       slept = [], ext = \<lparr>table = [], db_calls = 0, written = []\<rparr>\<rparr>)
   \<and> \<not> no_nulls (projr (fst (enrich (SECFilingsEnricher (mock_providers [Inr quarterly_report]) ''2023-01-01'')
                                  AAPL (world0 []))))"
  by code_simp

end
